theory Spec2Isabelle
  imports Complex_Main "HOL-Library.Sublist" "HOL-Library.AList"
begin

section \<open>JavaScript strings\<close>

text \<open>
  A JavaScript string is modelled as a \<^typ>\<open>string\<close>: a list of characters, each standing
  for one UTF-16 code unit, so that \<open>length\<close> is \<^verbatim>\<open>.length\<close>. The model is exact on
  ASCII text: case mapping and white space are those of the ASCII range, and every other
  code unit is left as it is by case mapping. The state definitions and the stored
  responses are read as finite maps of their own properties; the lookup of a placeholder
  name in the contextual data also finds the members inherited from \<^verbatim>\<open>Object.prototype\<close>.
\<close>

definition isWhiteSpace :: "char \<Rightarrow> bool" where
  \<comment> \<open>what \<^verbatim>\<open>\s\<close> and \<^verbatim>\<open>trim\<close> treat as white space in the ASCII range\<close>
  "isWhiteSpace c = ((of_char c :: nat) \<in> {9, 10, 11, 12, 13, 32})"

definition toLowerChar :: "char \<Rightarrow> char" where
  "toLowerChar c =
     (let n = (of_char c :: nat)
      in if 65 \<le> n \<and> n \<le> 90 then char_of (n + 32) else c)"

definition toUpperChar :: "char \<Rightarrow> char" where
  "toUpperChar c =
     (let n = (of_char c :: nat)
      in if 97 \<le> n \<and> n \<le> 122 then char_of (n - 32) else c)"

definition toLowerCase :: "string \<Rightarrow> string" where
  "toLowerCase s = map toLowerChar s"

definition trim :: "string \<Rightarrow> string" where
  "trim s = rev (dropWhile isWhiteSpace (rev (dropWhile isWhiteSpace s)))"

definition startsWith :: "string \<Rightarrow> string \<Rightarrow> bool" where
  "startsWith s t = prefix t s"

definition endsWith :: "string \<Rightarrow> string \<Rightarrow> bool" where
  "endsWith s t = prefix (rev t) (rev s)"

fun includes_str :: "string \<Rightarrow> string \<Rightarrow> bool" where
  \<comment> \<open>\<^verbatim>\<open>s.includes(t)\<close>: \<open>t\<close> occurs in \<open>s\<close> as a contiguous substring\<close>
  "includes_str [] t = (t = [])"
| "includes_str (x # xs) t = (prefix t (x # xs) \<or> includes_str xs t)"

fun splitOn :: "char \<Rightarrow> string \<Rightarrow> string list" where
  \<comment> \<open>\<^verbatim>\<open>s.split(c)\<close> for a one-character separator; never empty\<close>
  "splitOn c [] = [[]]"
| "splitOn c (x # xs) =
     (if x = c then [] # splitOn c xs
      else (case splitOn c xs of [] \<Rightarrow> [[x]] | w # ws \<Rightarrow> (x # w) # ws))"

fun splitWhiteSpace :: "string \<Rightarrow> string list" where
  \<comment> \<open>\<^verbatim>\<open>s.split(/\s+/)\<close>: a maximal run of white space is one separator\<close>
  "splitWhiteSpace [] = [[]]"
| "splitWhiteSpace [x] = (if isWhiteSpace x then [[], []] else [[x]])"
| "splitWhiteSpace (x # y # ys) =
     (if isWhiteSpace x
      then (if isWhiteSpace y then splitWhiteSpace (y # ys) else [] # splitWhiteSpace (y # ys))
      else (case splitWhiteSpace (y # ys) of [] \<Rightarrow> [[x]] | w # ws \<Rightarrow> (x # w) # ws))"

definition replaceAllChar :: "char \<Rightarrow> string \<Rightarrow> string \<Rightarrow> string" where
  \<comment> \<open>\<^verbatim>\<open>s.replace(/c/g, r)\<close> for a single literal character \<open>c\<close>\<close>
  "replaceAllChar c r s = concat (map (\<lambda>x. if x = c then r else [x]) s)"

section \<open>Condition matcher\<close>

text \<open>
  \<^verbatim>\<open>new RegExp(p, 'i').test(s)\<close> is the JavaScript runtime's regular-expression engine.
  It is a parameter of the model: \<open>rx p s = Some b\<close> when the test evaluates to \<open>b\<close>, and
  \<open>rx p s = None\<close> when constructing the expression throws a SyntaxError.
\<close>

type_synonym regex_engine = "string \<Rightarrow> string \<Rightarrow> bool option"

fun repeatedWords :: "string list \<Rightarrow> string list" where
  \<comment> \<open>\<^verbatim>\<open>words.filter((word, index, arr) => index > 0 && word === arr[index - 1])\<close>\<close>
  "repeatedWords (a # b # ws) =
     (if b = a then b # repeatedWords (b # ws) else repeatedWords (b # ws))"
| "repeatedWords ws = []"

definition matchesSingleCondition :: "regex_engine \<Rightarrow> string \<Rightarrow> string \<Rightarrow> bool" where
  "matchesSingleCondition rx response condition =
     (if startsWith condition ''contains:''
      then includes_str response (trim (drop (length ''contains:'') condition))
      else if startsWith condition ''exact:''
      then response = trim (drop (length ''exact:'') condition)
      else if startsWith condition ''starts:''
      then startsWith response (trim (drop (length ''starts:'') condition))
      else if startsWith condition ''ends:''
      then endsWith response (trim (drop (length ''ends:'') condition))
      else if CHR ''*'' \<in> set condition \<or> CHR ''+'' \<in> set condition
              \<or> CHR ''?'' \<in> set condition \<or> CHR ''|'' \<in> set condition
      then (case rx (replaceAllChar (CHR ''+'') ''.+''
                      (replaceAllChar (CHR ''*'') ''.*'' condition)) response of
              Some b \<Rightarrow> b
            | None \<Rightarrow> False)
      else if list_ex (\<lambda>word. includes_str condition word)
                (repeatedWords (splitWhiteSpace response))
      then True
      else includes_str response condition)"

definition matchesCondition :: "regex_engine \<Rightarrow> string \<Rightarrow> string \<Rightarrow> bool" where
  "matchesCondition rx response condition =
     (if toLowerCase condition = ''any'' then True
      else
        let normalizedResponse = trim (toLowerCase response)
        in if CHR '','' \<in> set condition
           then list_ex (\<lambda>opt. matchesSingleCondition rx normalizedResponse opt)
                  (map (\<lambda>opt. toLowerCase (trim opt)) (splitOn (CHR '','') condition))
           else matchesSingleCondition rx normalizedResponse (toLowerCase condition))"

section \<open>Configuration and session data\<close>

text \<open>
  The records follow the interfaces \<^verbatim>\<open>Business\<close>, \<^verbatim>\<open>ConversationState\<close>,
  \<^verbatim>\<open>StateTransition\<close> and \<^verbatim>\<open>KnowledgeBaseItem\<close>; only the fields read by the operations
  modelled below are kept. An optional field is an \<open>option\<close>. The service guards against
  a state without a \<^verbatim>\<open>transitions\<close> array, so that field is optional here too.
\<close>

record StateTransition =
  condition :: string
  targetState :: string

record ConversationState =
  name :: string
  question :: string
  expectedInputs :: "string option"
  expectedKeywords :: "string option"
  transitions :: "StateTransition list option"

record DisqualificationRule =
  rule_condition :: string
  message :: string

record KnowledgeBaseItem =
  pattern :: string
  item_response :: string

record Business =
  businessName :: string
  businessType :: string
  useCase :: string
  agentRole :: string
  tonePreference :: "string option"
  initialState :: string
  stateDefinitions :: "string \<rightharpoonup> ConversationState"
  disqualificationRules :: "DisqualificationRule list"
  knowledgeBase :: "KnowledgeBaseItem list option"

datatype jsval = Undefined | Str string

record StoredResponse =
  stored_value :: string
  valid :: bool
  timestamp :: string

record HistoryEntry =
  from_state :: string
  to_state :: string
  reason :: string

text \<open>
  Token counts are integers (exact as JavaScript numbers below \<open>2^53\<close>). The estimated
  cost is a floating-point number: its type \<open>'f\<close> and the operations on it are parameters,
  so that what is proved holds for every rounding behaviour.
\<close>

record 'f arith =
  fnum :: "rat \<Rightarrow> 'f"
  fadd :: "'f \<Rightarrow> 'f \<Rightarrow> 'f"
  fmul :: "'f \<Rightarrow> 'f \<Rightarrow> 'f"
  fdiv :: "'f \<Rightarrow> 'f \<Rightarrow> 'f"

definition exact_arith :: "rat arith" where
  \<comment> \<open>arithmetic without rounding, for evaluating the model at concrete inputs\<close>
  "exact_arith = \<lparr>fnum = (\<lambda>q. q), fadd = (+), fmul = (*), fdiv = (/)\<rparr>"

record 'f TokenUsage =
  totalTokens :: int
  inputTokens :: int
  outputTokens :: int
  estimatedCost :: 'f

record 'f AgentMemory =
  mem_stateDefinitions :: "string \<rightharpoonup> ConversationState"
  userResponses :: "(string \<times> StoredResponse) list"
  currentState :: string
  transitionHistory :: "HistoryEntry list"
  mem_disqualificationRules :: "DisqualificationRule list"
  mem_knowledgeBase :: "KnowledgeBaseItem list"
  tokenUsage :: "'f TokenUsage"
  contextualData :: "(string \<times> jsval) list"
  currentPrompt :: string
  usedLLM :: bool

definition new_AgentMemory :: "'f arith \<Rightarrow> Business \<Rightarrow> 'f AgentMemory" where
  "new_AgentMemory ar business =
     \<lparr>mem_stateDefinitions = stateDefinitions business,
      userResponses = [],
      currentState = (if initialState business = [] then ''greeting'' else initialState business),
      transitionHistory = [],
      mem_disqualificationRules = disqualificationRules business,
      mem_knowledgeBase = (case knowledgeBase business of None \<Rightarrow> [] | Some kb \<Rightarrow> kb),
      tokenUsage = \<lparr>totalTokens = 0, inputTokens = 0, outputTokens = 0,
                    estimatedCost = fnum ar 0\<rparr>,
      contextualData =
        [(''businessName'', Str (businessName business)),
         (''businessType'', Str (businessType business)),
         (''useCase'', Str (useCase business)),
         (''agentRole'', Str (agentRole business)),
         (''tonePreference'',
            (case tonePreference business of None \<Rightarrow> Undefined | Some t \<Rightarrow> Str t))],
      currentPrompt = [],
      usedLLM = False\<rparr>"

section \<open>API configuration and token cost\<close>

record 'f ApiCosts =
  gpt35Input :: 'f
  gpt35Output :: 'f
  gpt4Input :: 'f
  gpt4Output :: 'f

definition defaultModel :: string where
  "defaultModel = ''gpt-3.5-turbo''"

definition costs :: "'f arith \<Rightarrow> 'f ApiCosts" where
  \<comment> \<open>the literals 0.002, 0.002, 0.03 and 0.06 of \<^verbatim>\<open>API_CONFIG.openai.costs\<close>\<close>
  "costs ar =
     \<lparr>gpt35Input = fnum ar (2 / 1000), gpt35Output = fnum ar (2 / 1000),
      gpt4Input = fnum ar (3 / 100), gpt4Output = fnum ar (6 / 100)\<rparr>"

definition calculateTokenCost :: "'f arith \<Rightarrow> int \<Rightarrow> int \<Rightarrow> string \<Rightarrow> 'f" where
  "calculateTokenCost ar inTok outTok model =
     (let isGpt4 = startsWith model ''gpt-4''
      in if isGpt4
         then fadd ar (fmul ar (fdiv ar (fnum ar (of_int inTok)) (fnum ar 1000)) (gpt4Input (costs ar)))
                      (fmul ar (fdiv ar (fnum ar (of_int outTok)) (fnum ar 1000)) (gpt4Output (costs ar)))
         else fadd ar (fmul ar (fdiv ar (fnum ar (of_int inTok)) (fnum ar 1000)) (gpt35Input (costs ar)))
                      (fmul ar (fdiv ar (fnum ar (of_int outTok)) (fnum ar 1000)) (gpt35Output (costs ar))))"

definition updateTokenUsage :: "'f arith \<Rightarrow> 'f AgentMemory \<Rightarrow> int \<Rightarrow> int \<Rightarrow> 'f AgentMemory" where
  \<comment> \<open>the call passes no model, so \<^verbatim>\<open>calculateTokenCost\<close> takes its default, \<^verbatim>\<open>defaultModel\<close>\<close>
  "updateTokenUsage ar m inTok outTok =
     (let tu = tokenUsage m;
          tu1 = tu\<lparr>inputTokens := inputTokens tu + inTok\<rparr>;
          tu2 = tu1\<lparr>outputTokens := outputTokens tu1 + outTok\<rparr>;
          tu3 = tu2\<lparr>totalTokens := totalTokens tu2 + (inTok + outTok)\<rparr>;
          tu4 = tu3\<lparr>estimatedCost :=
                  calculateTokenCost ar (inputTokens tu3) (outputTokens tu3) defaultModel\<rparr>
      in m\<lparr>tokenUsage := tu4\<rparr>)"

section \<open>Conversation memory\<close>

definition contextKey :: "string \<Rightarrow> string" where
  \<comment> \<open>the key under which \<^verbatim>\<open>storeResponse\<close> files a response, from the expected input type\<close>
  "contextKey expectedType =
     (if includes_str expectedType ''name'' then ''userName''
      else if includes_str expectedType ''company'' \<or> includes_str expectedType ''business''
      then ''userCompany''
      else if includes_str expectedType ''email'' then ''userEmail''
      else if includes_str expectedType ''phone'' then ''userPhone''
      else if includes_str expectedType ''preference'' \<or> includes_str expectedType ''interest''
      then ''userPreference''
      else if includes_str expectedType ''order'' \<or> includes_str expectedType ''product''
      then ''userOrder''
      else if includes_str expectedType ''address'' then ''userAddress''
      else if includes_str expectedType ''feedback'' then ''userFeedback''
      else ''user'' @ map toUpperChar (take 1 expectedType) @ drop 1 expectedType)"

definition storeResponse ::
  "string \<Rightarrow> 'f AgentMemory \<Rightarrow> string \<Rightarrow> string \<Rightarrow> bool \<Rightarrow> 'f AgentMemory" where
  \<comment> \<open>\<open>now\<close> is \<^verbatim>\<open>new Date().toISOString()\<close>\<close>
  "storeResponse now m questionId response isValid =
     (let m1 = m\<lparr>userResponses :=
                  AList.update questionId
                    \<lparr>stored_value = response, valid = isValid, timestamp = now\<rparr>
                    (userResponses m)\<rparr>
      in case mem_stateDefinitions m1 (currentState m1) of
           None \<Rightarrow> m1
         | Some st \<Rightarrow>
             (case expectedInputs st of
                None \<Rightarrow> m1
              | Some ei \<Rightarrow>
                  if ei = [] then m1
                  else
                    let expectedType = toLowerCase ei;
                        m2 = m1\<lparr>contextualData :=
                                 AList.update (contextKey expectedType) (Str response)
                                   (contextualData m1)\<rparr>
                    in m2\<lparr>transitionHistory := transitionHistory m2 @
                            [\<lparr>from_state = currentState m2, to_state = currentState m2,
                              reason = ''Form data update: '' @ expectedType\<rparr>]\<rparr>))"

definition getNextState ::
  "regex_engine \<Rightarrow> 'f AgentMemory \<Rightarrow> string \<Rightarrow> string option \<times> 'f AgentMemory" where
  "getNextState rx m response =
     (case mem_stateDefinitions m (currentState m) of
        None \<Rightarrow> (None, m)
      | Some st \<Rightarrow>
          (case transitions st of
             None \<Rightarrow> (None, m)
           | Some ts \<Rightarrow>
               (case find (\<lambda>t. matchesCondition rx response (condition t)) ts of
                  None \<Rightarrow> (None, m)
                | Some t \<Rightarrow>
                    (Some (targetState t),
                     m\<lparr>transitionHistory := transitionHistory m @
                          [\<lparr>from_state = currentState m, to_state = targetState t,
                            reason = condition t\<rparr>],
                       currentState := targetState t\<rparr>))))"

definition isWordChar :: "char \<Rightarrow> bool" where
  \<comment> \<open>the class \<^verbatim>\<open>[a-zA-Z0-9_]\<close>\<close>
  "isWordChar c =
     (let n = (of_char c :: nat)
      in (97 \<le> n \<and> n \<le> 122) \<or> (65 \<le> n \<and> n \<le> 90) \<or> (48 \<le> n \<and> n \<le> 57) \<or> n = 95)"

text \<open>
  \<^verbatim>\<open>contextualData\<close> is a plain object, so \<^verbatim>\<open>this.contextualData[key]\<close> is the own
  property when there is one and otherwise the member of \<^verbatim>\<open>Object.prototype\<close> of that name,
  a function or an object. Every use of the value turns it into a string, so the model
  holds the string form of an inherited member, as V8 prints it.
\<close>

definition inheritedMemberText :: "string \<Rightarrow> string option" where
  \<comment> \<open>\<^verbatim>\<open>String(Object.prototype[key])\<close> for the members of \<^verbatim>\<open>Object.prototype\<close>\<close>
  "inheritedMemberText key =
     (if key = ''constructor'' then Some ''function Object() { [native code] }''
      else if key = ''__proto__'' then Some ''[object Object]''
      else if key \<in> set [''__defineGetter__'', ''__defineSetter__'', ''hasOwnProperty'',
                         ''__lookupGetter__'', ''__lookupSetter__'', ''isPrototypeOf'',
                         ''propertyIsEnumerable'', ''toString'', ''valueOf'', ''toLocaleString'']
      then Some (''function '' @ key @ ''() { [native code] }'')
      else None)"

definition contextValue :: "(string \<times> jsval) list \<Rightarrow> string \<Rightarrow> jsval" where
  \<comment> \<open>\<^verbatim>\<open>this.contextualData[key]\<close>\<close>
  "contextValue ctx key =
     (case map_of ctx key of
        Some v \<Rightarrow> v
      | None \<Rightarrow> (case inheritedMemberText key of None \<Rightarrow> Undefined | Some t \<Rightarrow> Str t))"

function replaceContextVariables :: "(string \<times> jsval) list \<Rightarrow> string \<Rightarrow> string" where
  \<comment> \<open>\<^verbatim>\<open>text.replace(/{([a-zA-Z0-9_]+)}/g, ...)\<close>, scanning from the left\<close>
  "replaceContextVariables ctx [] = []"
| "replaceContextVariables ctx (c # cs) =
     (let variableName = takeWhile isWordChar cs;
          rest = dropWhile isWordChar cs
      in if c = CHR ''{'' \<and> variableName \<noteq> [] \<and> startsWith rest ''}''
         then (case contextValue ctx variableName of
                 Str v \<Rightarrow> v
               | Undefined \<Rightarrow> c # variableName @ ''}'')
              @ replaceContextVariables ctx (drop 1 rest)
         else c # replaceContextVariables ctx cs)"
  by pat_completeness auto
termination
proof (relation "measure (\<lambda>(ctx, s). length s)", goal_cases)
  case 1
  show ?case by simp
next
  case (2 ctx c cs variableName rest)
  have "length (dropWhile isWordChar cs) \<le> length cs"
    by (rule length_dropWhile_le)
  with 2 show ?case by simp
next
  case (3 ctx c cs variableName rest)
  show ?case by simp
qed

definition hasRegexChars :: "string \<Rightarrow> bool" where
  \<comment> \<open>\<^verbatim>\<open>/[\|\+\*\?\(\)\[\]]/.test(pattern)\<close>\<close>
  "hasRegexChars p = list_ex (\<lambda>c. c \<in> set ''|+*?()[]'') p"

fun searchKnowledgeBase ::
  "regex_engine \<Rightarrow> (string \<times> jsval) list \<Rightarrow> string \<Rightarrow> KnowledgeBaseItem list \<Rightarrow> string option" where
  \<comment> \<open>the loop of \<^verbatim>\<open>findKnowledgeBaseResponse\<close>; a throwing \<^verbatim>\<open>RegExp\<close> goes to the catch branch\<close>
  "searchKnowledgeBase rx ctx normalizedQuery [] = None"
| "searchKnowledgeBase rx ctx normalizedQuery (item # items) =
     (if hasRegexChars (pattern item)
      then (case rx (pattern item) normalizedQuery of
              Some matched \<Rightarrow>
                if matched then Some (replaceContextVariables ctx (item_response item))
                else searchKnowledgeBase rx ctx normalizedQuery items
            | None \<Rightarrow>
                if includes_str normalizedQuery (toLowerCase (pattern item))
                then Some (replaceContextVariables ctx (item_response item))
                else searchKnowledgeBase rx ctx normalizedQuery items)
      else if list_ex (\<lambda>term. includes_str normalizedQuery term \<and> length term > 3)
                (splitWhiteSpace (toLowerCase (pattern item)))
      then Some (replaceContextVariables ctx (item_response item))
      else searchKnowledgeBase rx ctx normalizedQuery items)"

definition findKnowledgeBaseResponse ::
  "regex_engine \<Rightarrow> 'f AgentMemory \<Rightarrow> string \<Rightarrow> string option" where
  "findKnowledgeBaseResponse rx m query =
     (if mem_knowledgeBase m = [] then None
      else searchKnowledgeBase rx (contextualData m) (trim (toLowerCase query))
             (mem_knowledgeBase m))"

record DisqualificationCheck =
  is_disqualified :: bool
  check_message :: "string option"

definition isDisqualified ::
  "regex_engine \<Rightarrow> 'f AgentMemory \<Rightarrow> string \<Rightarrow> DisqualificationCheck" where
  "isDisqualified rx m response =
     (case find (\<lambda>rule. matchesCondition rx response (rule_condition rule))
             (mem_disqualificationRules m) of
        None \<Rightarrow> \<lparr>is_disqualified = False, check_message = None\<rparr>
      | Some rule \<Rightarrow> \<lparr>is_disqualified = True, check_message = Some (message rule)\<rparr>)"

definition getCurrentStateDefinition :: "'f AgentMemory \<Rightarrow> ConversationState option" where
  "getCurrentStateDefinition m = mem_stateDefinitions m (currentState m)"

section \<open>Escalation decision\<close>

fun replaceFirst :: "string \<Rightarrow> string \<Rightarrow> string \<Rightarrow> string" where
  \<comment> \<open>\<^verbatim>\<open>s.replace(pat, rep)\<close> with a string pattern: the first occurrence only\<close>
  "replaceFirst pat rep [] = (if pat = [] then rep else [])"
| "replaceFirst pat rep (c # cs) =
     (if prefix pat (c # cs) then rep @ drop (length pat) (c # cs)
      else c # replaceFirst pat rep cs)"

definition isTruthyValue :: "jsval \<Rightarrow> bool" where
  "isTruthyValue v = (case v of Undefined \<Rightarrow> False | Str s \<Rightarrow> s \<noteq> [])"

definition identityKeys :: "string list" where
  "identityKeys = [''businessName'', ''businessType'', ''useCase'', ''agentRole'', ''tonePreference'']"

definition asksAboutKnownData :: "(string \<times> jsval) list \<Rightarrow> string \<Rightarrow> bool" where
  \<comment> \<open>the loop over \<^verbatim>\<open>contextualData\<close> in \<^verbatim>\<open>shouldUseLLM\<close> reaches its \<^verbatim>\<open>return false\<close>\<close>
  "asksAboutKnownData ctx response =
     list_ex (\<lambda>(key, v). key \<notin> set identityKeys \<and> isTruthyValue v \<and>
                 includes_str (toLowerCase response)
                   (replaceFirst ''user'' [] (toLowerCase key))) ctx"

definition lowerOrEmpty :: "string option \<Rightarrow> string" where
  \<comment> \<open>\<^verbatim>\<open>x?.toLowerCase() || ''\<close>\<close>
  "lowerOrEmpty x = (case x of None \<Rightarrow> [] | Some s \<Rightarrow> toLowerCase s)"

definition shouldUseLLM :: "regex_engine \<Rightarrow> 'f AgentMemory \<Rightarrow> string \<Rightarrow> bool" where
  "shouldUseLLM rx m response =
     (if endsWith response ''?'' \<and> length response > 10
      then (if asksAboutKnownData (contextualData m) response then False else True)
      else
        case mem_stateDefinitions m (currentState m) of
          None \<Rightarrow> True
        | Some st \<Rightarrow>
            (case transitions st of
               None \<Rightarrow> True
             | Some ts \<Rightarrow>
                 let expInputs = lowerOrEmpty (expectedInputs st);
                     expKeywords = lowerOrEmpty (expectedKeywords st)
                 in if includes_str expInputs ''reason'' \<or>
                       includes_str expInputs ''objection'' \<or>
                       includes_str expInputs ''explanation'' \<or>
                       includes_str expInputs ''description'' \<or>
                       includes_str expInputs ''feedback''
                    then True
                    else if expInputs = ''any'' \<or> includes_str expInputs ''any response'' \<or>
                            expKeywords = ''any'' \<or> includes_str expKeywords ''any''
                    then (if list_ex (\<lambda>t. trim (toLowerCase (condition t)) = ''any'') ts then False
                          else if list_ex (\<lambda>t. matchesCondition rx response (condition t)) ts
                          then False
                          else True)
                    else if list_ex (\<lambda>t. matchesCondition rx response (condition t)) ts
                    then False
                    else True))"

section \<open>Prompt compaction\<close>

record MinimalContext =
  ctx_currentState :: string
  ctx_relevantResponses :: "(string \<times> StoredResponse) list"
  ctx_stateDefinition :: "ConversationState option"
  ctx_recentTransitions :: "HistoryEntry list"
  ctx_contextualData :: "(string \<times> jsval) list"

definition sliceLast :: "nat \<Rightarrow> 'a list \<Rightarrow> 'a list" where
  \<comment> \<open>\<^verbatim>\<open>xs.slice(-n)\<close>\<close>
  "sliceLast n xs = drop (length xs - n) xs"

definition getRelevantResponses :: "'f AgentMemory \<Rightarrow> (string \<times> StoredResponse) list" where
  "getRelevantResponses m = sliceLast 7 (userResponses m)"

definition buildMinimalContext :: "'f AgentMemory \<Rightarrow> MinimalContext" where
  \<comment> \<open>a missing state definition is the empty object, here \<open>None\<close>\<close>
  "buildMinimalContext m =
     \<lparr>ctx_currentState = currentState m,
      ctx_relevantResponses = getRelevantResponses m,
      ctx_stateDefinition = mem_stateDefinitions m (currentState m),
      ctx_recentTransitions = sliceLast 5 (transitionHistory m),
      ctx_contextualData = contextualData m\<rparr>"

fun joinLines :: "string list \<Rightarrow> string" where
  \<comment> \<open>\<^verbatim>\<open>xs.join('\n')\<close>\<close>
  "joinLines [] = []"
| "joinLines [x] = x"
| "joinLines (x # y # ys) = x @ ''\<newline>'' @ joinLines (y # ys)"

definition jsToString :: "jsval \<Rightarrow> string" where
  "jsToString v = (case v of Undefined \<Rightarrow> ''undefined'' | Str s \<Rightarrow> s)"

definition orElse :: "string option \<Rightarrow> string \<Rightarrow> string" where
  \<comment> \<open>\<^verbatim>\<open>x || d\<close> for an optional string: the default when absent or empty\<close>
  "orElse x d = (case x of None \<Rightarrow> d | Some s \<Rightarrow> if s = [] then d else s)"

definition generateSystemPrompt :: "Business \<Rightarrow> MinimalContext \<Rightarrow> string" where
  "generateSystemPrompt b context =
     (let expInputs = (case ctx_stateDefinition context of
                         None \<Rightarrow> [] | Some st \<Rightarrow> orElse (expectedInputs st) []);
          expKeywords = (case ctx_stateDefinition context of
                           None \<Rightarrow> [] | Some st \<Rightarrow> orElse (expectedKeywords st) []);
          currentQuestion = (case ctx_stateDefinition context of
                               None \<Rightarrow> [] | Some st \<Rightarrow> question st);
          responsesText =
            joinLines (map (\<lambda>(i, resp). ''- '' @ i @ '': '' @ [CHR 0x22] @ stored_value resp @ [CHR 0x22])
                         (ctx_relevantResponses context));
          contextKeys = filter (\<lambda>k. k \<notin> set identityKeys) (map fst (ctx_contextualData context));
          contextDataText =
            (if length contextKeys > 0
             then joinLines (map (\<lambda>key. ''- '' @ key @ '': '' @
                                      jsToString (contextValue (ctx_contextualData context) key))
                               contextKeys)
             else ''No additional user data collected yet.'')
      in ''You are a virtual assistant for '' @ businessName b @ '', a '' @ businessType b @
         '' business.\<newline>'' @
         ''\<newline>'' @
         ''ROLE: '' @ agentRole b @ '' helping with '' @ useCase b @ ''\<newline>'' @
         ''\<newline>'' @
         ''CURRENT STATE: '' @ ctx_currentState context @ ''\<newline>'' @
         ''CURRENT QUESTION: '' @ [CHR 0x22] @ currentQuestion @ [CHR 0x22] @ ''\<newline>'' @
         ''EXPECTED INPUTS: '' @ expInputs @ ''\<newline>'' @
         ''EXPECTED KEYWORDS: '' @ expKeywords @ ''\<newline>'' @
         ''\<newline>'' @
         ''USER CONTEXT (FORM DATA - MOST IMPORTANT):\<newline>'' @
         contextDataText @ ''\<newline>'' @
         ''\<newline>'' @
         ''RECENT RESPONSES:\<newline>'' @
         responsesText @ ''\<newline>'' @
         ''\<newline>'' @
         ''RESPONSE GUIDELINES:\<newline>'' @
         ''1. Use '' @ orElse (tonePreference b) ''professional'' @ '' tone\<newline>'' @
         ''2. Be very concise (under 50 words)\<newline>'' @
         ''3. Stay focused on answering the current question \<newline>'' @
         ''4. Reference the form data whenever relevant\<newline>'' @
         ''5. Do not ask new questions unless absolutely necessary\<newline>'' @
         ''6. If user is off-topic, briefly acknowledge then guide back to the current question\<newline>'' @
         ''7. If user asks about form data they've provided, answer directly using that data\<newline>'' @
         ''8. Avoid unnecessary explanations or elaborations\<newline>'' @
         ''9. Always relate your response to the user context data whenever possible to maintain continuity\<newline>'' @
         ''10. When using LLM, try to tie responses back to previous form data for token optimization\<newline>'' @
         ''11. Preserve correct spelling of words - do not truncate words with double letters\<newline>'' @
         ''12. IMPORTANT: For words like '' @ [CHR 0x22] @ ''well'' @ [CHR 0x22] @ '', '' @
         [CHR 0x22] @ ''address'' @ [CHR 0x22] @ '', '' @ [CHR 0x22] @ ''follow'' @ [CHR 0x22] @
         '', etc., preserve all letters\<newline>'' @
         ''\<newline>'' @
         ''After responding, guide the user back to the conversation flow established in the current question.'')"

section \<open>Repair of duplicated characters\<close>

text \<open>
  The pattern \<^verbatim>\<open>/(.)\1{2,}/g\<close> matches, from the left, a character that \<^verbatim>\<open>.\<close> accepts
  followed by at least two more copies of it, as many as there are. Without the \<^verbatim>\<open>s\<close>
  flag the dot accepts every character except a line terminator.
\<close>

definition isLineTerminator :: "char \<Rightarrow> bool" where
  "isLineTerminator c = ((of_char c :: nat) = 10 \<or> (of_char c :: nat) = 13)"

fun problematicDuplication_test :: "string \<Rightarrow> bool" where
  "problematicDuplication_test [] = False"
| "problematicDuplication_test (c # cs) =
     ((\<not> isLineTerminator c \<and> 2 \<le> length (takeWhile (\<lambda>x. x = c) cs))
      \<or> problematicDuplication_test cs)"

function problematicDuplication_replace :: "string \<Rightarrow> string" where
  \<comment> \<open>\<^verbatim>\<open>response.replace(problematicDuplication, '$1$1')\<close>\<close>
  "problematicDuplication_replace [] = []"
| "problematicDuplication_replace (c # cs) =
     (if \<not> isLineTerminator c \<and> 2 \<le> length (takeWhile (\<lambda>x. x = c) cs)
      then c # c # problematicDuplication_replace (dropWhile (\<lambda>x. x = c) cs)
      else c # problematicDuplication_replace cs)"
  by pat_completeness auto
termination
proof (relation "measure length", goal_cases)
  case 1
  show ?case by simp
next
  case (2 c cs)
  have "length (dropWhile (\<lambda>x. x = c) cs) \<le> length cs"
    by (rule length_dropWhile_le)
  then show ?case by simp
next
  case (3 c cs)
  show ?case by simp
qed

definition fixDuplication :: "string \<Rightarrow> string" where
  "fixDuplication response =
     (if problematicDuplication_test response
      then problematicDuplication_replace response
      else response)"

text \<open>
  For stating what the repair does: the maximal runs of equal characters of a string, and
  the effect of the repair on one run.
\<close>

fun charRuns :: "string \<Rightarrow> (char \<times> nat) list" where
  \<comment> \<open>the maximal runs of equal characters of a string, with their lengths\<close>
  "charRuns [] = []"
| "charRuns (c # cs) =
     (case charRuns cs of
        [] \<Rightarrow> [(c, 1)]
      | (d, n) # rs \<Rightarrow> if d = c then (c, Suc n) # rs else (c, 1) # (d, n) # rs)"

definition collapsedRun :: "char \<times> nat \<Rightarrow> char \<times> nat" where
  \<comment> \<open>what the repair does to one run\<close>
  "collapsedRun r = (case r of (c, n) \<Rightarrow> (c, if isLineTerminator c then n else min n 2))"

section \<open>The service\<close>

text \<open>
  The chat-completion call is the only asynchronous step. Its outcome is a parameter: the
  call fails (the promise is rejected), the answer carries no choice, or the first choice
  carries an optional content.
\<close>

datatype Completion = CallFails | NoChoices | FirstChoice "string option"

record 'f runtime =
  regexTest :: regex_engine
  arithmetic :: "'f arith"
  createChatCompletion :: "string \<Rightarrow> string \<Rightarrow> string \<Rightarrow> Completion"
  isoNow :: string

record 'f KaniService =
  openai :: bool
  memory :: "'f AgentMemory"
  business :: Business
  apiKey :: string
  modelName :: string
  responseDelay :: nat

definition new_KaniService ::
  "'f arith \<Rightarrow> string \<Rightarrow> Business \<Rightarrow> string \<Rightarrow> nat \<Rightarrow> 'f KaniService" where
  \<comment> \<open>\<open>openai\<close> tells whether the client was created, which needs a non-empty API key\<close>
  "new_KaniService ar key b model delay =
     \<lparr>openai = (key \<noteq> []), memory = new_AgentMemory ar b, business = b,
      apiKey = key, modelName = model, responseDelay = delay\<rparr>"

record TurnResult =
  response :: string
  nextState :: "string option"
  disqualified :: bool

definition isTruthy :: "string option \<Rightarrow> bool" where
  \<comment> \<open>\<^verbatim>\<open>if (x)\<close> for \<^verbatim>\<open>string | null\<close>: the empty string counts as absent\<close>
  "isTruthy x = (case x of None \<Rightarrow> False | Some s \<Rightarrow> s \<noteq> [])"

definition ceilQuarter :: "nat \<Rightarrow> int" where
  \<comment> \<open>\<^verbatim>\<open>Math.ceil(n / 4)\<close> for a length \<open>n\<close>\<close>
  "ceilQuarter n = int ((n + 3) div 4)"

fun scanTargetNames :: "Business \<Rightarrow> string \<Rightarrow> StateTransition list \<Rightarrow> string option" where
  \<comment> \<open>the loop of \<^verbatim>\<open>determineStateFromLLMResponse\<close> over the current state's transitions\<close>
  "scanTargetNames b llmResponse [] = None"
| "scanTargetNames b llmResponse (t # ts) =
     (case stateDefinitions b (targetState t) of
        None \<Rightarrow> scanTargetNames b llmResponse ts
      | Some target \<Rightarrow>
          if name target \<noteq> [] \<and>
             includes_str (toLowerCase llmResponse) (toLowerCase (name target))
          then Some (targetState t)
          else scanTargetNames b llmResponse ts)"

definition determineStateFromLLMResponse ::
  "regex_engine \<Rightarrow> 'f KaniService \<Rightarrow> string \<Rightarrow> string \<Rightarrow> string option \<times> 'f KaniService" where
  "determineStateFromLLMResponse rx svc llmResponse userInput =
     (let (nextStateFromRules, m1) = getNextState rx (memory svc) userInput;
          svc1 = svc\<lparr>memory := m1\<rparr>
      in if isTruthy nextStateFromRules then (nextStateFromRules, svc1)
         else
           case ctx_stateDefinition (buildMinimalContext m1) of
             None \<Rightarrow> (None, svc1)
           | Some st \<Rightarrow>
               (case transitions st of
                  None \<Rightarrow> (None, svc1)
                | Some ts \<Rightarrow> (scanTargetNames (business svc1) llmResponse ts, svc1)))"

definition llmFallback ::
  "'f runtime \<Rightarrow> 'f KaniService \<Rightarrow> string \<Rightarrow> TurnResult \<times> 'f KaniService" where
  \<comment> \<open>the \<^verbatim>\<open>try\<close> block of \<^verbatim>\<open>processUserInput\<close> with its \<^verbatim>\<open>catch\<close>\<close>
  "llmFallback rt svc input =
     (let svc1 = svc\<lparr>memory := (memory svc)\<lparr>usedLLM := True\<rparr>\<rparr>
      in if \<not> openai svc1
         then (\<lparr>response = ''I'm not fully configured to respond intelligently yet. Please check your OpenAI API key configuration.'',
                nextState = None, disqualified = False\<rparr>, svc1)
         else
           let context = buildMinimalContext (memory svc1);
               prompt = generateSystemPrompt (business svc1) context;
               svc2 = svc1\<lparr>memory := (memory svc1)\<lparr>currentPrompt := prompt\<rparr>\<rparr>;
               inputTokenEstimate = ceilQuarter (length prompt + length input);
               failure = (\<lparr>response = ''I'm having trouble understanding. Could you please rephrase that?'',
                           nextState = None, disqualified = False\<rparr>, svc2)
           in case createChatCompletion rt (modelName svc2) prompt input of
                CallFails \<Rightarrow> failure
              | NoChoices \<Rightarrow> failure
              | FirstChoice content \<Rightarrow>
                  let reply = fixDuplication
                                (orElse content ''I apologize, but I couldn't process that response.'');
                      outputTokenEstimate = ceilQuarter (length reply);
                      svc3 = svc2\<lparr>memory := updateTokenUsage (arithmetic rt) (memory svc2)
                                                inputTokenEstimate outputTokenEstimate\<rparr>;
                      (next, svc4) = determineStateFromLLMResponse (regexTest rt) svc3 reply input
                  in (\<lparr>response = reply, nextState = next, disqualified = False\<rparr>, svc4))"

definition processUserInput ::
  "'f runtime \<Rightarrow> 'f KaniService \<Rightarrow> string \<Rightarrow> TurnResult \<times> 'f KaniService" where
  "processUserInput rt svc input =
     (let knowledgeResponse = findKnowledgeBaseResponse (regexTest rt) (memory svc) input
      in if isTruthy knowledgeResponse
         then (\<lparr>response = orElse knowledgeResponse [],
                nextState = Some (currentState (memory svc)), disqualified = False\<rparr>,
               svc\<lparr>memory := (memory svc)\<lparr>usedLLM := False\<rparr>\<rparr>)
         else
           let disqualificationCheck = isDisqualified (regexTest rt) (memory svc) input
           in if is_disqualified disqualificationCheck
              then (\<lparr>response = orElse (check_message disqualificationCheck)
                                   ''Sorry, we cannot proceed further.'',
                     nextState = None, disqualified = True\<rparr>, svc)
              else
                let m1 = storeResponse (isoNow rt) (memory svc) (currentState (memory svc)) input True;
                    (next, m2) = getNextState (regexTest rt) m1 input;
                    svc2 = svc\<lparr>memory := m2\<rparr>
                in case (if isTruthy next then getCurrentStateDefinition m2 else None) of
                     Some nextStateDefinition \<Rightarrow>
                       (\<lparr>response = question nextStateDefinition, nextState = next,
                         disqualified = False\<rparr>,
                        svc2\<lparr>memory := m2\<lparr>usedLLM := False\<rparr>\<rparr>)
                   | None \<Rightarrow> llmFallback rt svc2 input)"

text \<open>
  Two stages of a turn that the statements below refer to: the memory after the utterance
  has been recorded for the current state, and the prompt built when the turn falls back
  to the model.
\<close>

abbreviation recordedMemory :: "'f runtime \<Rightarrow> 'f KaniService \<Rightarrow> string \<Rightarrow> 'f AgentMemory" where
  "recordedMemory rt svc input \<equiv>
     storeResponse (isoNow rt) (memory svc) (currentState (memory svc)) input True"

abbreviation fallbackPrompt :: "'f KaniService \<Rightarrow> 'f AgentMemory \<Rightarrow> string" where
  "fallbackPrompt svc m \<equiv>
     generateSystemPrompt (business svc) (buildMinimalContext (m\<lparr>usedLLM := True\<rparr>))"

section \<open>A concrete runtime\<close>

text \<open>
  For evaluating the model at concrete inputs: an engine whose \<^verbatim>\<open>RegExp\<close> constructor
  rejects every pattern. It is used only where no condition or pattern contains a
  regular-expression character, so that the engine is never consulted.
\<close>

definition noRegExp :: regex_engine where
  "noRegExp p s = None"

definition offlineRuntime :: "rat runtime" where
  \<comment> \<open>every chat-completion call fails\<close>
  "offlineRuntime =
     \<lparr>regexTest = noRegExp, arithmetic = exact_arith,
      createChatCompletion = (\<lambda>model prompt input. CallFails),
      isoNow = ''2024-01-01T00:00:00.000Z''\<rparr>"

definition replyRuntime :: "rat runtime" where
  \<comment> \<open>every chat-completion call answers \<open>Okay.\<close>\<close>
  "replyRuntime =
     \<lparr>regexTest = noRegExp, arithmetic = exact_arith,
      createChatCompletion = (\<lambda>model prompt input. FirstChoice (Some ''Okay.'')),
      isoNow = ''2024-01-01T00:00:00.000Z''\<rparr>"

section \<open>Concrete configurations\<close>

definition demoBusiness :: Business where
  "demoBusiness =
     \<lparr>businessName = ''Acme Shoes'', businessType = ''E-commerce'',
      useCase = ''Order confirmation'', agentRole = ''Customer service representative'',
      tonePreference = Some ''friendly'', initialState = ''greeting'',
      stateDefinitions =
        [''greeting'' \<mapsto>
           \<lparr>name = ''Greeting'', question = ''Is this a good time to talk?'',
            expectedInputs = Some ''Yes/No response'', expectedKeywords = Some ''yes, no'',
            transitions = Some [\<lparr>condition = ''contains:yes'', targetState = ''done''\<rparr>]\<rparr>,
         ''done'' \<mapsto>
           \<lparr>name = ''Done'', question = ''Thank you.'',
            expectedInputs = None, expectedKeywords = None, transitions = Some []\<rparr>],
      disqualificationRules =
        [\<lparr>rule_condition = ''contains:cancel'', message = ''sorry''\<rparr>,
         \<lparr>rule_condition = ''contains:refund'', message = []\<rparr>,
         \<lparr>rule_condition = ''contains:complaint'',
          message = ''Your complaint will be forwarded.''\<rparr>],
      knowledgeBase =
        Some [\<lparr>pattern = ''where are you located'',
               item_response = ''We are in {userCompany}.''\<rparr>]\<rparr>"

definition demoService :: "rat KaniService" where
  "demoService = new_KaniService exact_arith ''sk-demo'' demoBusiness ''gpt-3.5-turbo'' 750"

definition acmeMemory :: "rat AgentMemory" where
  \<comment> \<open>the memory of \<open>demoService\<close> with the contextual fact \<open>userCompany = Acme\<close>\<close>
  "acmeMemory =
     (memory demoService)
       \<lparr>contextualData :=
          AList.update ''userCompany'' (Str ''Acme'') (contextualData (memory demoService))\<rparr>"

definition contactMemory :: "rat AgentMemory" where
  \<comment> \<open>\<open>acmeMemory\<close> with a knowledge item whose answer names \<open>constructor\<close> and \<open>missing\<close>,
      neither of them a contextual fact\<close>
  "contactMemory =
     acmeMemory
       \<lparr>mem_knowledgeBase :=
          [\<lparr>pattern = ''contact person'',
            item_response = ''Ask {constructor} or {missing}.''\<rparr>]\<rparr>"

definition gpt4Service :: "rat KaniService" where
  "gpt4Service = new_KaniService exact_arith ''sk-demo'' demoBusiness ''gpt-4'' 750"

definition objectionBusiness :: Business where
  "objectionBusiness =
     \<lparr>businessName = ''Acme Shoes'', businessType = ''E-commerce'',
      useCase = ''Sales'', agentRole = ''Sales representative'',
      tonePreference = None, initialState = ''ask_name'',
      stateDefinitions =
        [''ask_name'' \<mapsto>
           \<lparr>name = ''Ask name'', question = ''May I have your name?'',
            expectedInputs = Some ''Name'', expectedKeywords = None,
            transitions = Some [\<lparr>condition = ''any'', targetState = ''ask_reason''\<rparr>]\<rparr>,
         ''ask_reason'' \<mapsto>
           \<lparr>name = ''Ask reason'', question = ''Why are you not interested?'',
            expectedInputs = Some ''Reason or objection'', expectedKeywords = None,
            transitions = Some [\<lparr>condition = ''contains:price'', targetState = ''pricing''\<rparr>]\<rparr>,
         ''pricing'' \<mapsto>
           \<lparr>name = ''Pricing'', question = ''We can offer a discount.'',
            expectedInputs = None, expectedKeywords = None, transitions = Some []\<rparr>],
      disqualificationRules = [],
      knowledgeBase = None\<rparr>"

definition objectionService :: "rat KaniService" where
  "objectionService =
     new_KaniService exact_arith ''sk-demo'' objectionBusiness ''gpt-3.5-turbo'' 750"

definition danglingBusiness :: Business where
  \<comment> \<open>a flow whose only transition targets a state without a definition\<close>
  "danglingBusiness =
     \<lparr>businessName = ''Acme Shoes'', businessType = ''E-commerce'',
      useCase = ''Support'', agentRole = ''Assistant'',
      tonePreference = None, initialState = ''start'',
      stateDefinitions =
        [''start'' \<mapsto>
           \<lparr>name = ''Start'', question = ''How can I help?'',
            expectedInputs = None, expectedKeywords = None,
            transitions = Some [\<lparr>condition = ''any'', targetState = ''nowhere''\<rparr>]\<rparr>],
      disqualificationRules = [],
      knowledgeBase = None\<rparr>"

definition danglingService :: "rat KaniService" where
  "danglingService =
     new_KaniService exact_arith ''sk-demo'' danglingBusiness ''gpt-3.5-turbo'' 750"

definition emptyIdBusiness :: Business where
  \<comment> \<open>a flow in which the empty string is the id of a state\<close>
  "emptyIdBusiness =
     \<lparr>businessName = ''Acme Shoes'', businessType = ''E-commerce'',
      useCase = ''Support'', agentRole = ''Assistant'',
      tonePreference = None, initialState = ''start'',
      stateDefinitions =
        [''start'' \<mapsto>
           \<lparr>name = ''Start'', question = ''How can I help?'',
            expectedInputs = None, expectedKeywords = None,
            transitions = Some [\<lparr>condition = ''any'', targetState = []\<rparr>]\<rparr>,
         [] \<mapsto>
           \<lparr>name = ''Middle'', question = ''Anything else?'',
            expectedInputs = None, expectedKeywords = None,
            transitions = Some [\<lparr>condition = ''any'', targetState = ''end''\<rparr>]\<rparr>,
         ''end'' \<mapsto>
           \<lparr>name = ''Finish'', question = ''Goodbye.'',
            expectedInputs = None, expectedKeywords = None, transitions = Some []\<rparr>],
      disqualificationRules = [],
      knowledgeBase = None\<rparr>"

definition emptyIdService :: "rat KaniService" where
  "emptyIdService =
     new_KaniService exact_arith ''sk-demo'' emptyIdBusiness ''gpt-3.5-turbo'' 750"

section \<open>Facts about strings\<close>

lemma of_char_toLowerChar:
  "(of_char (toLowerChar c) :: nat) =
     (if 65 \<le> (of_char c :: nat) \<and> (of_char c :: nat) \<le> 90 then of_char c + 32 else of_char c)"
  by (simp add: toLowerChar_def Let_def)

lemma isWhiteSpace_toLowerChar: "isWhiteSpace (toLowerChar c) = isWhiteSpace c"
  by (auto simp: isWhiteSpace_def of_char_toLowerChar)

lemma toLowerChar_idem: "toLowerChar (toLowerChar c) = toLowerChar c"
proof -
  have "(of_char (toLowerChar (toLowerChar c)) :: nat) = of_char (toLowerChar c)"
    by (auto simp: of_char_toLowerChar)
  then show ?thesis by simp
qed

lemma toLowerChar_eq_comma: "(toLowerChar c = CHR '','') = (c = CHR '','')"
proof -
  have "((of_char (toLowerChar c) :: nat) = of_char (CHR '','')) =
        ((of_char c :: nat) = of_char (CHR '',''))"
    by (auto simp: of_char_toLowerChar)
  then show ?thesis by (simp only: of_char_eq_iff)
qed

lemma toLowerCase_idem: "toLowerCase (toLowerCase s) = toLowerCase s"
  by (simp add: toLowerCase_def toLowerChar_idem)

lemma toLowerCase_append: "toLowerCase (s @ t) = toLowerCase s @ toLowerCase t"
  by (simp add: toLowerCase_def)

lemma comma_eq_toLowerChar: "(CHR '','' = toLowerChar c) = (c = CHR '','')"
  using toLowerChar_eq_comma [of c] by auto

lemma comma_in_toLowerCase: "(CHR '','' \<in> set (toLowerCase s)) = (CHR '','' \<in> set s)"
  by (induction s) (auto simp: toLowerCase_def toLowerChar_eq_comma comma_eq_toLowerChar)

lemma dropWhile_isWhiteSpace_lower:
  "dropWhile isWhiteSpace (map toLowerChar s) = map toLowerChar (dropWhile isWhiteSpace s)"
  by (induction s) (simp_all add: isWhiteSpace_toLowerChar)

lemma trim_toLowerCase: "trim (toLowerCase s) = toLowerCase (trim s)"
  by (simp add: trim_def toLowerCase_def dropWhile_isWhiteSpace_lower rev_map)

lemma splitOn_nonempty: "splitOn c s \<noteq> []"
  by (induction s) (auto split: list.splits)

lemma splitOn_toLowerCase:
  "splitOn (CHR '','') (toLowerCase s) = map toLowerCase (splitOn (CHR '','') s)"
proof (induction s)
  case Nil
  show ?case by (simp add: toLowerCase_def)
next
  case (Cons x xs)
  then show ?case
    using splitOn_nonempty [of "CHR '',''" xs]
    by (cases "splitOn (CHR '','') xs")
       (auto simp: toLowerCase_def toLowerChar_eq_comma)
qed

lemma lowered_options:
  "map (\<lambda>opt. toLowerCase (trim opt)) (splitOn (CHR '','') c) =
   map trim (splitOn (CHR '','') (toLowerCase c))"
  by (simp add: splitOn_toLowerCase trim_toLowerCase)

lemma matchesCondition_lowered:
  "matchesCondition rx u c =
     (if toLowerCase c = ''any'' then True
      else if CHR '','' \<in> set (toLowerCase c)
      then list_ex (matchesSingleCondition rx (trim (toLowerCase u)))
             (map trim (splitOn (CHR '','') (toLowerCase c)))
      else matchesSingleCondition rx (trim (toLowerCase u)) (toLowerCase c))"
  by (simp add: matchesCondition_def Let_def lowered_options comma_in_toLowerCase)

lemma matchesCondition_cong_lower:
  assumes "toLowerCase u = toLowerCase u'" and "toLowerCase c = toLowerCase c'"
  shows "matchesCondition rx u c = matchesCondition rx u' c'"
  by (simp only: matchesCondition_lowered assms)

lemma lower_exact: "toLowerCase ''exact:'' = ''exact:''"
  by code_simp
lemma lower_contains: "toLowerCase ''contains:'' = ''contains:''"
  by code_simp

lemma exact_form:
  assumes "CHR '','' \<notin> set s"
  shows "matchesCondition rx u (''exact:'' @ s) = (trim (toLowerCase u) = trim (toLowerCase s))"
proof -
  have l: "toLowerCase (''exact:'' @ s) = ''exact:'' @ toLowerCase s"
    by (simp only: toLowerCase_append lower_exact)
  have c: "CHR '','' \<notin> set (''exact:'' @ toLowerCase s)"
    using assms by (simp add: comma_in_toLowerCase)
  show ?thesis
    unfolding matchesCondition_lowered l using c
    by (simp add: matchesSingleCondition_def startsWith_def)
qed

lemma contains_form:
  assumes "CHR '','' \<notin> set s"
  shows "matchesCondition rx u (''contains:'' @ s) =
           includes_str (trim (toLowerCase u)) (trim (toLowerCase s))"
proof -
  have l: "toLowerCase (''contains:'' @ s) = ''contains:'' @ toLowerCase s"
    by (simp only: toLowerCase_append lower_contains)
  have c: "CHR '','' \<notin> set (''contains:'' @ toLowerCase s)"
    using assms by (simp add: comma_in_toLowerCase)
  show ?thesis
    unfolding matchesCondition_lowered l using c
    by (simp add: matchesSingleCondition_def startsWith_def)
qed


section \<open>Condition matcher: prefixed forms and alternatives\<close>

text \<open>
  C2, as the code has it. \<^verbatim>\<open>matchesCondition\<close> lower-cases the utterance and the
  condition before any form is tried, so \<open>matches("ABC", "exact:abc")\<close> is true: the result
  depends on the utterance and on the condition only through their lower-cased forms,
  whatever the form (\<open>exact:\<close>, \<open>contains:\<close>, regular expression or plain). Under
  \<open>exact:\<close> the trimmed lower-cased utterance is compared with the trimmed lower-cased
  text, under \<open>contains:\<close> it is searched for that text.
\<close>

theorem exact_form_ignores_case:
  "matchesCondition rx ''ABC'' ''exact:abc'' \<and>
   (toLowerCase u = toLowerCase u' \<longrightarrow> toLowerCase c = toLowerCase c' \<longrightarrow>
      matchesCondition rx u c = matchesCondition rx u' c') \<and>
   (CHR '','' \<notin> set s \<longrightarrow>
      matchesCondition rx u (''exact:'' @ s) = (trim (toLowerCase u) = trim (toLowerCase s))) \<and>
   (CHR '','' \<notin> set s \<longrightarrow>
      matchesCondition rx u (''contains:'' @ s) =
        includes_str (trim (toLowerCase u)) (trim (toLowerCase s)))"
proof -
  have "matchesCondition rx ''ABC'' ''exact:abc''"
    by code_simp
  then show ?thesis
    using matchesCondition_cong_lower [of u u' c c' rx] exact_form [of s rx u]
      contains_form [of s rx u]
    by blast
qed

theorem exact_form_ignores_case_witness:
  "toLowerCase ''ABC'' = toLowerCase ''abc'' \<and>
   toLowerCase ''EXACT:abc'' = toLowerCase ''exact:ABC'' \<and>
   CHR '','' \<notin> set ''Abc'' \<and>
   matchesCondition noRegExp ''ABC'' ''EXACT:abc'' = matchesCondition noRegExp ''abc'' ''exact:ABC'' \<and>
   matchesCondition noRegExp ''ABC'' (''exact:'' @ ''Abc'') =
     (trim (toLowerCase ''ABC'') = trim (toLowerCase ''Abc'')) \<and>
   matchesCondition noRegExp ''ABC'' (''contains:'' @ ''Abc'') =
     includes_str (trim (toLowerCase ''ABC'')) (trim (toLowerCase ''Abc''))"
proof -
  have h1: "toLowerCase ''ABC'' = toLowerCase ''abc''"
    by code_simp
  have h2: "toLowerCase ''EXACT:abc'' = toLowerCase ''exact:ABC''"
    by code_simp
  have h3: "CHR '','' \<notin> set ''Abc''"
    by simp
  show ?thesis
    using h1 h2 h3
      exact_form_ignores_case [of noRegExp "''ABC''" "''abc''" "''EXACT:abc''" "''exact:ABC''" "''Abc''"]
    by blast
qed

theorem exact_form_counterexample:
  "matchesCondition noRegExp ''ABC'' ''exact:abc''"
  by code_simp

text \<open>
  C3, as the code has it. A condition containing a comma is split on commas, each part is
  trimmed and lower-cased, and the condition matches when some part matches the trimmed
  lower-cased utterance. \<open>matches("yes please", "yes,no")\<close> is true, and so is
  \<open>matches("nope", "yes,no")\<close>: a plain part matches as a substring, and \<open>no\<close> is a
  substring of \<open>nope\<close>. \<open>matches("maybe", "yes,no")\<close> is false.
\<close>

theorem comma_alternatives:
  "(CHR '','' \<in> set c \<longrightarrow>
      matchesCondition rx u c =
        (\<exists>opt \<in> set (splitOn (CHR '','') c).
           matchesSingleCondition rx (trim (toLowerCase u)) (toLowerCase (trim opt)))) \<and>
   matchesCondition rx ''yes please'' ''yes,no'' \<and>
   matchesCondition rx ''nope'' ''yes,no'' \<and>
   \<not> matchesCondition rx ''maybe'' ''yes,no''"
proof -
  have general: "matchesCondition rx u c =
        (\<exists>opt \<in> set (splitOn (CHR '','') c).
           matchesSingleCondition rx (trim (toLowerCase u)) (toLowerCase (trim opt)))"
    if comma: "CHR '','' \<in> set c"
  proof -
    from comma have "CHR '','' \<in> set (toLowerCase c)"
      by (simp add: comma_in_toLowerCase)
    then have "toLowerCase c \<noteq> ''any''"
      by auto
    with comma show ?thesis
      by (auto simp: matchesCondition_def Let_def list_ex_iff)
  qed
  have yes: "matchesCondition rx ''yes please'' ''yes,no''"
    by code_simp
  have nope: "matchesCondition rx ''nope'' ''yes,no''"
    by code_simp
  have maybe: "\<not> matchesCondition rx ''maybe'' ''yes,no''"
    by code_simp
  from general yes nope maybe show ?thesis
    by blast
qed

theorem comma_alternatives_witness:
  "CHR '','' \<in> set ''yes,no'' \<and>
   splitOn (CHR '','') ''yes,no'' = [''yes'', ''no''] \<and>
   matchesSingleCondition noRegExp (trim (toLowerCase ''nope'')) (toLowerCase (trim ''no'')) \<and>
   matchesCondition noRegExp ''nope'' ''yes,no''"
proof -
  have h: "CHR '','' \<in> set ''yes,no''"
    by simp
  have parts: "splitOn (CHR '','') ''yes,no'' = [''yes'', ''no'']"
    by code_simp
  have no: "matchesSingleCondition noRegExp (trim (toLowerCase ''nope'')) (toLowerCase (trim ''no''))"
    by code_simp
  have "matchesCondition noRegExp ''nope'' ''yes,no''"
    using h parts no comma_alternatives [of "''yes,no''" noRegExp "''nope''"]
    by simp
  with h parts no show ?thesis
    by (intro conjI)
qed

theorem comma_alternatives_counterexample:
  "\<not> (matchesCondition noRegExp ''nope'' ''yes,no'' = False)"
  by code_simp

section \<open>Token accounting\<close>

lemma fresh_tokenUsage:
  "tokenUsage (memory (new_KaniService ar key b model delay)) =
     \<lparr>totalTokens = 0, inputTokens = 0, outputTokens = 0, estimatedCost = fnum ar 0\<rparr>"
  by (simp add: new_KaniService_def new_AgentMemory_def)

lemma tokenUsage_updateTokenUsage:
  "tokenUsage (updateTokenUsage ar m inTok outTok) =
     \<lparr>totalTokens = totalTokens (tokenUsage m) + (inTok + outTok),
      inputTokens = inputTokens (tokenUsage m) + inTok,
      outputTokens = outputTokens (tokenUsage m) + outTok,
      estimatedCost = calculateTokenCost ar (inputTokens (tokenUsage m) + inTok)
                        (outputTokens (tokenUsage m) + outTok) defaultModel\<rparr>"
  by (simp add: updateTokenUsage_def Let_def)

lemma defaultModel_not_gpt4: "\<not> startsWith defaultModel ''gpt-4''"
  by (simp add: defaultModel_def startsWith_def)

lemma calculateTokenCost_gpt35:
  "\<not> startsWith model ''gpt-4'' \<Longrightarrow>
   calculateTokenCost ar inTok outTok model =
     fadd ar (fmul ar (fdiv ar (fnum ar (of_int inTok)) (fnum ar 1000)) (fnum ar (2 / 1000)))
             (fmul ar (fdiv ar (fnum ar (of_int outTok)) (fnum ar 1000)) (fnum ar (2 / 1000)))"
  by (simp add: calculateTokenCost_def costs_def)

text \<open>
  C4. In a fresh session whose model is not of the GPT-4 family, after
  \<open>updateTokenUsage(40, 10)\<close> and \<open>updateTokenUsage(30, 5)\<close> the counters are 70, 15 and
  85, and the estimated cost is the cost of the cumulative totals, 70 and 15, at the
  per-1000-token rates 0.002 and 0.002: it is recomputed from the totals, whatever the
  rounding of the floating-point operations, and is not a sum of per-turn costs.
\<close>

theorem token_accounting_two_turns:
  assumes "\<not> startsWith model ''gpt-4''"
  shows "let tu = tokenUsage
                    (updateTokenUsage ar
                       (updateTokenUsage ar (memory (new_KaniService ar key b model delay)) 40 10)
                       30 5)
         in inputTokens tu = 70 \<and> outputTokens tu = 15 \<and> totalTokens tu = 85 \<and>
            estimatedCost tu = calculateTokenCost ar 70 15 model \<and>
            estimatedCost tu =
              fadd ar (fmul ar (fdiv ar (fnum ar 70) (fnum ar 1000)) (fnum ar (2 / 1000)))
                      (fmul ar (fdiv ar (fnum ar 15) (fnum ar 1000)) (fnum ar (2 / 1000)))"
  using assms
  by (simp add: Let_def tokenUsage_updateTokenUsage fresh_tokenUsage
        calculateTokenCost_gpt35 defaultModel_not_gpt4)

theorem token_accounting_two_turns_witness:
  "\<not> startsWith ''gpt-3.5-turbo'' ''gpt-4'' \<and>
   (let tu = tokenUsage (updateTokenUsage exact_arith (updateTokenUsage exact_arith (memory demoService) 40 10) 30 5)
    in inputTokens tu = 70 \<and> outputTokens tu = 15 \<and> totalTokens tu = 85 \<and>
       estimatedCost tu = 17 / 100000)"
proof -
  have h: "\<not> startsWith ''gpt-3.5-turbo'' ''gpt-4''"
    by (simp add: startsWith_def)
  have v: "fadd exact_arith (fmul exact_arith (fdiv exact_arith (fnum exact_arith 70) (fnum exact_arith 1000)) (fnum exact_arith (2 / 1000)))
                      (fmul exact_arith (fdiv exact_arith (fnum exact_arith 15) (fnum exact_arith 1000)) (fnum exact_arith (2 / 1000))) = 17 / 100000"
    by (simp add: exact_arith_def)
  show ?thesis
    using h v token_accounting_two_turns [OF h, of exact_arith "''sk-demo''" demoBusiness 750]
    by (simp add: Let_def demoService_def)
qed

text \<open>
  C5. \<^verbatim>\<open>updateTokenUsage\<close> calls \<^verbatim>\<open>calculateTokenCost\<close> without a model, so the rates
  are those of the default model \<open>gpt-3.5-turbo\<close> in every session, whatever its model
  name. In a session configured with the model \<open>gpt-4\<close>, 1000 input and 1000 output
  tokens are estimated at 0.004, where the GPT-4 rates give 0.09.
\<close>

theorem gpt4_session_billed_at_default_rates:
  "modelName gpt4Service = ''gpt-4'' \<and>
   estimatedCost (tokenUsage (updateTokenUsage exact_arith (memory gpt4Service) 1000 1000)) = 4 / 1000 \<and>
   calculateTokenCost exact_arith 1000 1000 (modelName gpt4Service) = 9 / 100 \<and>
   estimatedCost
     (tokenUsage (updateTokenUsage ar (memory (new_KaniService ar key b model delay)) inTok outTok)) =
     calculateTokenCost ar inTok outTok ''gpt-3.5-turbo''"
proof -
  have "modelName gpt4Service = ''gpt-4'' \<and>
        estimatedCost (tokenUsage (updateTokenUsage exact_arith (memory gpt4Service) 1000 1000)) = 4 / 1000 \<and>
        calculateTokenCost exact_arith 1000 1000 (modelName gpt4Service) = 9 / 100"
    by code_simp
  moreover have "estimatedCost
     (tokenUsage (updateTokenUsage ar (memory (new_KaniService ar key b model delay)) inTok outTok)) =
     calculateTokenCost ar inTok outTok ''gpt-3.5-turbo''"
    by (simp add: tokenUsage_updateTokenUsage fresh_tokenUsage defaultModel_def)
  ultimately show ?thesis
    by blast
qed

section \<open>Facts about the memory operations\<close>

lemma find_first_match:
  "xs = pre @ x # post \<Longrightarrow> \<forall>y \<in> set pre. \<not> P y \<Longrightarrow> P x \<Longrightarrow> find P xs = Some x"
  by (induction pre arbitrary: xs) auto

lemma getNextState_fst_cong:
  assumes "mem_stateDefinitions m' = mem_stateDefinitions m"
      and "currentState m' = currentState m"
  shows "fst (getNextState rx m' u) = fst (getNextState rx m u)"
  using assms by (simp add: getNextState_def split: option.splits)

lemma getNextState_None:
  "fst (getNextState rx m u) = None \<Longrightarrow> getNextState rx m u = (None, m)"
  by (auto simp: getNextState_def split: option.splits)

lemma getNextState_undefined_state:
  "mem_stateDefinitions m (currentState m) = None \<Longrightarrow> getNextState rx m u = (None, m)"
  by (simp add: getNextState_def)

lemma getNextState_stateDefinitions:
  "mem_stateDefinitions (snd (getNextState rx m u)) = mem_stateDefinitions m"
  by (simp add: getNextState_def split: option.splits)

lemma storeResponse_frame:
  "currentState (storeResponse now m q r v) = currentState m"
  "mem_stateDefinitions (storeResponse now m q r v) = mem_stateDefinitions m"
  "tokenUsage (storeResponse now m q r v) = tokenUsage m"
  by (simp_all add: storeResponse_def Let_def split: option.splits)

lemma storeResponse_userResponses:
  "userResponses (storeResponse now m q r v) =
     AList.update q \<lparr>stored_value = r, valid = v, timestamp = now\<rparr> (userResponses m)"
  by (simp add: storeResponse_def Let_def split: option.splits)

lemma updateTokenUsage_frame:
  "currentState (updateTokenUsage ar m a b) = currentState m"
  "mem_stateDefinitions (updateTokenUsage ar m a b) = mem_stateDefinitions m"
  "transitionHistory (updateTokenUsage ar m a b) = transitionHistory m"
  by (simp_all add: updateTokenUsage_def Let_def)

section \<open>Facts about a turn\<close>

lemma processUserInput_disqualified:
  assumes "\<not> isTruthy (findKnowledgeBaseResponse (regexTest rt) (memory svc) input)"
      and "find (\<lambda>rule. matchesCondition (regexTest rt) input (rule_condition rule))
             (mem_disqualificationRules (memory svc)) = Some rule"
  shows "processUserInput rt svc input =
           (\<lparr>response = orElse (Some (message rule)) ''Sorry, we cannot proceed further.'',
             nextState = None, disqualified = True\<rparr>, svc)"
  using assms by (simp add: processUserInput_def isDisqualified_def Let_def)

lemma processUserInput_fallback:
  assumes "\<not> isTruthy (findKnowledgeBaseResponse (regexTest rt) (memory svc) input)"
      and "\<not> is_disqualified (isDisqualified (regexTest rt) (memory svc) input)"
      and "getNextState (regexTest rt) (recordedMemory rt svc input) input = (next, m2)"
      and "\<not> (isTruthy next \<and> getCurrentStateDefinition m2 \<noteq> None)"
  shows "processUserInput rt svc input = llmFallback rt (svc\<lparr>memory := m2\<rparr>) input"
  using assms by (auto simp: processUserInput_def Let_def split: option.splits)

lemma llmFallback_fails:
  assumes "openai svc"
      and "createChatCompletion rt (modelName svc) (fallbackPrompt svc (memory svc)) input
             \<in> {CallFails, NoChoices}"
  shows "llmFallback rt svc input =
           (\<lparr>response = ''I'm having trouble understanding. Could you please rephrase that?'',
             nextState = None, disqualified = False\<rparr>,
            svc\<lparr>memory := (memory svc)\<lparr>usedLLM := True,
                     currentPrompt := fallbackPrompt svc (memory svc)\<rparr>\<rparr>)"
  using assms by (auto simp: llmFallback_def Let_def)

lemma llmFallback_replies:
  assumes "openai svc"
      and "createChatCompletion rt (modelName svc) (fallbackPrompt svc (memory svc)) input
             = FirstChoice content"
  shows "llmFallback rt svc input =
           (let prompt = fallbackPrompt svc (memory svc);
                reply = fixDuplication
                          (orElse content ''I apologize, but I couldn't process that response.'');
                svc3 = svc\<lparr>memory := updateTokenUsage (arithmetic rt)
                         ((memory svc)\<lparr>usedLLM := True, currentPrompt := prompt\<rparr>)
                         (ceilQuarter (length prompt + length input))
                         (ceilQuarter (length reply))\<rparr>;
                (next, svc4) = determineStateFromLLMResponse (regexTest rt) svc3 reply input
            in (\<lparr>response = reply, nextState = next, disqualified = False\<rparr>, svc4))"
  using assms by (simp add: llmFallback_def Let_def)

lemma determineState_rerun_null:
  assumes "getNextState rx (memory svc) u = (None, memory svc)"
  shows "determineStateFromLLMResponse rx svc reply u =
           ((case getCurrentStateDefinition (memory svc) of
               None \<Rightarrow> None
             | Some st \<Rightarrow>
                 (case transitions st of
                    None \<Rightarrow> None
                  | Some ts \<Rightarrow> scanTargetNames (business svc) reply ts)), svc)"
  using assms
  by (simp add: determineStateFromLLMResponse_def isTruthy_def buildMinimalContext_def
        getCurrentStateDefinition_def split: option.splits)


section \<open>Disqualification\<close>

text \<open>
  C1, as the code has it. When the knowledge base gives no answer and \<open>rule\<close> is the
  first disqualification rule whose condition the utterance matches, the turn returns
  that rule's message, or the text \<open>Sorry, we cannot proceed further.\<close> when the message is
  empty, with no next state and \<open>disqualified\<close> set; the service, and with it the current
  state, is left as it was.
\<close>

theorem disqualifying_utterance_ends_turn:
  assumes "findKnowledgeBaseResponse (regexTest rt) (memory svc) input = None"
      and "mem_disqualificationRules (memory svc) = pre @ rule # post"
      and "\<forall>r \<in> set pre. \<not> matchesCondition (regexTest rt) input (rule_condition r)"
      and "matchesCondition (regexTest rt) input (rule_condition rule)"
  shows "processUserInput rt svc input =
           (\<lparr>response = (if message rule = [] then ''Sorry, we cannot proceed further.''
                          else message rule),
             nextState = None, disqualified = True\<rparr>, svc)"
proof -
  have kb: "\<not> isTruthy (findKnowledgeBaseResponse (regexTest rt) (memory svc) input)"
    using assms(1) by (simp add: isTruthy_def)
  have first: "find (\<lambda>rule. matchesCondition (regexTest rt) input (rule_condition rule))
                 (mem_disqualificationRules (memory svc)) = Some rule"
    using assms(2-4) by (rule find_first_match)
  show ?thesis
    using processUserInput_disqualified [OF kb first] by (simp add: orElse_def)
qed

theorem disqualifying_utterance_ends_turn_witness:
  "findKnowledgeBaseResponse (regexTest offlineRuntime) (memory demoService) ''I have a complaint'' = None \<and>
   mem_disqualificationRules (memory demoService) =
     [\<lparr>rule_condition = ''contains:cancel'', message = ''sorry''\<rparr>,
      \<lparr>rule_condition = ''contains:refund'', message = []\<rparr>] @
     \<lparr>rule_condition = ''contains:complaint'', message = ''Your complaint will be forwarded.''\<rparr> # [] \<and>
   \<not> matchesCondition (regexTest offlineRuntime) ''I have a complaint'' ''contains:cancel'' \<and>
   \<not> matchesCondition (regexTest offlineRuntime) ''I have a complaint'' ''contains:refund'' \<and>
   matchesCondition (regexTest offlineRuntime) ''I have a complaint'' ''contains:complaint'' \<and>
   processUserInput offlineRuntime demoService ''I have a complaint'' =
     (\<lparr>response = ''Your complaint will be forwarded.'', nextState = None, disqualified = True\<rparr>,
      demoService)"
proof -
  let ?pre = "[\<lparr>rule_condition = ''contains:cancel'', message = ''sorry''\<rparr>,
               \<lparr>rule_condition = ''contains:refund'', message = []\<rparr>]"
  let ?rule = "\<lparr>rule_condition = ''contains:complaint'',
                message = ''Your complaint will be forwarded.''\<rparr>"
  have h1: "findKnowledgeBaseResponse (regexTest offlineRuntime) (memory demoService)
              ''I have a complaint'' = None"
    by code_simp
  have h2: "mem_disqualificationRules (memory demoService) = ?pre @ ?rule # []"
    by (simp add: demoService_def new_KaniService_def new_AgentMemory_def demoBusiness_def)
  have n1: "\<not> matchesCondition (regexTest offlineRuntime) ''I have a complaint'' ''contains:cancel''"
    by code_simp
  have n2: "\<not> matchesCondition (regexTest offlineRuntime) ''I have a complaint'' ''contains:refund''"
    by code_simp
  have h3: "\<forall>r \<in> set ?pre.
              \<not> matchesCondition (regexTest offlineRuntime) ''I have a complaint'' (rule_condition r)"
    using n1 n2 by simp
  have y: "matchesCondition (regexTest offlineRuntime) ''I have a complaint'' ''contains:complaint''"
    by code_simp
  then have h4: "matchesCondition (regexTest offlineRuntime) ''I have a complaint''
                   (rule_condition ?rule)"
    by simp
  have r: "processUserInput offlineRuntime demoService ''I have a complaint'' =
     (\<lparr>response = ''Your complaint will be forwarded.'', nextState = None, disqualified = True\<rparr>,
      demoService)"
    using disqualifying_utterance_ends_turn [OF h1 h2 h3 h4] by simp
  from h1 h2 n1 n2 y r show ?thesis
    by (intro conjI)
qed

theorem empty_message_counterexample:
  "findKnowledgeBaseResponse noRegExp (memory demoService) ''refund please'' = None \<and>
   \<not> matchesCondition noRegExp ''refund please'' ''contains:cancel'' \<and>
   matchesCondition noRegExp ''refund please'' ''contains:refund'' \<and>
   response (fst (processUserInput offlineRuntime demoService ''refund please'')) \<noteq>
     message \<lparr>rule_condition = ''contains:refund'', message = []\<rparr>"
  by code_simp

section \<open>Failure of the model\<close>

lemma getNextState_frame:
  "tokenUsage (snd (getNextState rx m u)) = tokenUsage m"
  "userResponses (snd (getNextState rx m u)) = userResponses m"
  by (simp_all add: getNextState_def split: option.splits)

lemma getNextState_currentState:
  "currentState (snd (getNextState rx m u)) =
     (case fst (getNextState rx m u) of None \<Rightarrow> currentState m | Some t \<Rightarrow> t)"
  by (simp add: getNextState_def split: option.splits)

text \<open>
  C8, as the code has it. When a turn reaches the model because the knowledge base and the
  disqualification rules gave nothing and the rule-based step gave no state with a
  definition, and the model call fails or carries no choice, the turn returns the fixed
  apology with no next state and \<open>disqualified\<close> unset. The token usage and the state
  definitions are as before the turn. The current state is the one the rule-based step
  left: the state before the turn when no transition matched. The memory is not as
  before: the utterance has been recorded for the current state, \<open>usedLLM\<close> is set and the
  prompt is stored.
\<close>

theorem model_failure_ends_turn:
  assumes "\<not> isTruthy (findKnowledgeBaseResponse (regexTest rt) (memory svc) input)"
      and "\<not> is_disqualified (isDisqualified (regexTest rt) (memory svc) input)"
      and "getNextState (regexTest rt) (recordedMemory rt svc input) input = (next, m2)"
      and "\<not> (isTruthy next \<and> getCurrentStateDefinition m2 \<noteq> None)"
      and "openai svc"
      and "createChatCompletion rt (modelName svc) (fallbackPrompt svc m2) input
             \<in> {CallFails, NoChoices}"
  shows "processUserInput rt svc input =
           (\<lparr>response = ''I'm having trouble understanding. Could you please rephrase that?'',
             nextState = None, disqualified = False\<rparr>,
            svc\<lparr>memory := m2\<lparr>usedLLM := True, currentPrompt := fallbackPrompt svc m2\<rparr>\<rparr>) \<and>
         tokenUsage (memory (snd (processUserInput rt svc input))) = tokenUsage (memory svc) \<and>
         mem_stateDefinitions (memory (snd (processUserInput rt svc input))) =
           mem_stateDefinitions (memory svc) \<and>
         currentState (memory (snd (processUserInput rt svc input))) =
           (case next of None \<Rightarrow> currentState (memory svc) | Some target \<Rightarrow> target) \<and>
         map_of (userResponses (memory (snd (processUserInput rt svc input))))
           (currentState (memory svc)) =
           Some \<lparr>stored_value = input, valid = True, timestamp = isoNow rt\<rparr> \<and>
         usedLLM (memory (snd (processUserInput rt svc input)))"
proof -
  let ?m1 = "recordedMemory rt svc input"
  from assms(3) have nx: "next = fst (getNextState (regexTest rt) ?m1 input)"
    and m2: "m2 = snd (getNextState (regexTest rt) ?m1 input)"
    by simp_all
  have fb: "processUserInput rt svc input = llmFallback rt (svc\<lparr>memory := m2\<rparr>) input"
    using assms(1-4) by (rule processUserInput_fallback)
  have "llmFallback rt (svc\<lparr>memory := m2\<rparr>) input =
          (\<lparr>response = ''I'm having trouble understanding. Could you please rephrase that?'',
            nextState = None, disqualified = False\<rparr>,
           svc\<lparr>memory := m2\<lparr>usedLLM := True, currentPrompt := fallbackPrompt svc m2\<rparr>\<rparr>)"
    using llmFallback_fails [of "svc\<lparr>memory := m2\<rparr>" rt input] assms(5,6) by simp
  with fb have whole: "processUserInput rt svc input =
          (\<lparr>response = ''I'm having trouble understanding. Could you please rephrase that?'',
            nextState = None, disqualified = False\<rparr>,
           svc\<lparr>memory := m2\<lparr>usedLLM := True, currentPrompt := fallbackPrompt svc m2\<rparr>\<rparr>)"
    by simp
  have c2: "tokenUsage (memory (snd (processUserInput rt svc input))) = tokenUsage (memory svc)"
    by (simp add: whole m2 getNextState_frame storeResponse_frame)
  have c3: "mem_stateDefinitions (memory (snd (processUserInput rt svc input))) =
           mem_stateDefinitions (memory svc)"
    by (simp add: whole m2 getNextState_stateDefinitions storeResponse_frame)
  have c4: "currentState (memory (snd (processUserInput rt svc input))) =
           (case next of None \<Rightarrow> currentState (memory svc) | Some target \<Rightarrow> target)"
    by (simp add: whole m2 nx getNextState_currentState storeResponse_frame
          cong: option.case_cong)
  have c5: "map_of (userResponses (memory (snd (processUserInput rt svc input))))
           (currentState (memory svc)) =
           Some \<lparr>stored_value = input, valid = True, timestamp = isoNow rt\<rparr>"
    by (simp add: whole m2 getNextState_frame storeResponse_userResponses update_conv')
  have c6: "usedLLM (memory (snd (processUserInput rt svc input)))"
    by (simp add: whole)
  from whole c2 c3 c4 c5 c6 show ?thesis
    by (intro conjI)
qed

theorem model_failure_ends_turn_witness:
  "\<not> isTruthy (findKnowledgeBaseResponse (regexTest offlineRuntime) (memory demoService) ''maybe'') \<and>
   \<not> is_disqualified (isDisqualified (regexTest offlineRuntime) (memory demoService) ''maybe'') \<and>
   getNextState (regexTest offlineRuntime) (recordedMemory offlineRuntime demoService ''maybe'') ''maybe'' =
     (None, recordedMemory offlineRuntime demoService ''maybe'') \<and>
   openai demoService \<and>
   createChatCompletion offlineRuntime (modelName demoService)
     (fallbackPrompt demoService (recordedMemory offlineRuntime demoService ''maybe'')) ''maybe''
     \<in> {CallFails, NoChoices} \<and>
   fst (processUserInput offlineRuntime demoService ''maybe'') =
     \<lparr>response = ''I'm having trouble understanding. Could you please rephrase that?'',
      nextState = None, disqualified = False\<rparr> \<and>
   tokenUsage (memory (snd (processUserInput offlineRuntime demoService ''maybe''))) =
     tokenUsage (memory demoService) \<and>
   currentState (memory (snd (processUserInput offlineRuntime demoService ''maybe''))) =
     currentState (memory demoService)"
proof -
  let ?m1 = "recordedMemory offlineRuntime demoService ''maybe''"
  have h1: "\<not> isTruthy (findKnowledgeBaseResponse (regexTest offlineRuntime) (memory demoService) ''maybe'')"
    by code_simp
  have h2: "\<not> is_disqualified (isDisqualified (regexTest offlineRuntime) (memory demoService) ''maybe'')"
    by code_simp
  have "fst (getNextState (regexTest offlineRuntime) ?m1 ''maybe'') = None"
    by code_simp
  then have h3: "getNextState (regexTest offlineRuntime) ?m1 ''maybe'' = (None, ?m1)"
    by (rule getNextState_None)
  have h4: "\<not> (isTruthy None \<and> getCurrentStateDefinition ?m1 \<noteq> None)"
    by (simp add: isTruthy_def)
  have h5: "openai demoService"
    by code_simp
  have h6: "createChatCompletion offlineRuntime (modelName demoService)
     (fallbackPrompt demoService ?m1) ''maybe'' \<in> {CallFails, NoChoices}"
    by (simp add: offlineRuntime_def)
  note t = model_failure_ends_turn [OF h1 h2 h3 h4 h5 h6]
  have r: "fst (processUserInput offlineRuntime demoService ''maybe'') =
     \<lparr>response = ''I'm having trouble understanding. Could you please rephrase that?'',
      nextState = None, disqualified = False\<rparr>"
    using t [THEN conjunct1] by (simp only: fst_conv)
  have u: "tokenUsage (memory (snd (processUserInput offlineRuntime demoService ''maybe''))) =
     tokenUsage (memory demoService)"
    using t [THEN conjunct2, THEN conjunct1] .
  have s: "currentState (memory (snd (processUserInput offlineRuntime demoService ''maybe''))) =
     currentState (memory demoService)"
    using t [THEN conjunct2, THEN conjunct2, THEN conjunct2, THEN conjunct1] by simp
  from h1 h2 h3 h5 h6 r u s show ?thesis
    by (intro conjI)
qed

theorem model_failure_counterexample:
  "response (fst (processUserInput offlineRuntime demoService ''maybe'')) =
     ''I'm having trouble understanding. Could you please rephrase that?'' \<and>
   userResponses (memory (snd (processUserInput offlineRuntime demoService ''maybe''))) \<noteq>
     userResponses (memory demoService) \<and>
   usedLLM (memory (snd (processUserInput offlineRuntime demoService ''maybe''))) \<noteq>
     usedLLM (memory demoService) \<and>
   response (fst (processUserInput offlineRuntime danglingService ''hi'')) =
     ''I'm having trouble understanding. Could you please rephrase that?'' \<and>
   currentState (memory danglingService) = ''start'' \<and>
   currentState (memory (snd (processUserInput offlineRuntime danglingService ''hi''))) = ''nowhere''"
  by code_simp

section \<open>The second run of the state machine in a fallback turn\<close>

lemma determineState_fst_cong:
  assumes "business svc' = business svc"
      and "mem_stateDefinitions (memory svc') = mem_stateDefinitions (memory svc)"
      and "currentState (memory svc') = currentState (memory svc)"
  shows "fst (determineStateFromLLMResponse rx svc' reply u) =
         fst (determineStateFromLLMResponse rx svc reply u)"
proof -
  have f: "fst (getNextState rx (memory svc') u) = fst (getNextState rx (memory svc) u)"
    using assms(2,3) by (rule getNextState_fst_cong)
  have c: "currentState (snd (getNextState rx (memory svc') u)) =
           currentState (snd (getNextState rx (memory svc) u))"
    by (cases "fst (getNextState rx (memory svc) u)")
       (simp_all add: getNextState_currentState f assms(3))
  have d: "mem_stateDefinitions (snd (getNextState rx (memory svc') u)) =
           mem_stateDefinitions (snd (getNextState rx (memory svc) u))"
    by (simp add: getNextState_stateDefinitions assms(2))
  show ?thesis
    using f c d assms(1)
    by (simp add: determineStateFromLLMResponse_def buildMinimalContext_def
          split_beta Let_def split: option.splits)
qed

text \<open>
  C10, as the code has it. Take a turn that reaches the model: the knowledge base and the
  disqualification rules gave nothing, the first run of \<^verbatim>\<open>getNextState\<close> returned
  \<open>next\<close> and left the memory \<open>m2\<close>, and either \<open>next\<close> is not truthy or the state it
  names has no definition. Provided \<open>next\<close> is not the empty string, the second run of
  \<^verbatim>\<open>getNextState\<close>, inside \<^verbatim>\<open>determineStateFromLLMResponse\<close>, returns null and changes
  nothing, from any memory with the state definitions and the current state of \<open>m2\<close>; the
  next state of the turn is then the result of scanning the reply for the display names of
  the current state's transition targets, and the turn records no transition.
\<close>

theorem fallback_rerun_returns_null:
  fixes rt :: "'f runtime"
  assumes "\<not> isTruthy (findKnowledgeBaseResponse (regexTest rt) (memory svc) input)"
      and "\<not> is_disqualified (isDisqualified (regexTest rt) (memory svc) input)"
      and "getNextState (regexTest rt) (recordedMemory rt svc input) input = (next, m2)"
      and "\<not> (isTruthy next \<and> getCurrentStateDefinition m2 \<noteq> None)"
      and "next \<noteq> Some []"
      and "openai svc"
      and "createChatCompletion rt (modelName svc) (fallbackPrompt svc m2) input
             = FirstChoice content"
  shows "(\<forall>m' :: 'f AgentMemory. mem_stateDefinitions m' = mem_stateDefinitions m2 \<longrightarrow>
               currentState m' = currentState m2 \<longrightarrow>
               getNextState (regexTest rt) m' input = (None, m')) \<and>
         response (fst (processUserInput rt svc input)) =
           fixDuplication (orElse content ''I apologize, but I couldn't process that response.'') \<and>
         nextState (fst (processUserInput rt svc input)) =
           (case getCurrentStateDefinition m2 of
              None \<Rightarrow> None
            | Some st \<Rightarrow>
                (case transitions st of
                   None \<Rightarrow> None
                 | Some ts \<Rightarrow>
                     scanTargetNames (business svc)
                       (response (fst (processUserInput rt svc input))) ts)) \<and>
         currentState (memory (snd (processUserInput rt svc input))) = currentState m2 \<and>
         transitionHistory (memory (snd (processUserInput rt svc input))) = transitionHistory m2"
proof -
  let ?rx = "regexTest rt"
  let ?prompt = "fallbackPrompt svc m2"
  define reply where
    "reply = fixDuplication (orElse content ''I apologize, but I couldn't process that response.'')"
  let ?m3 = "updateTokenUsage (arithmetic rt) (m2\<lparr>usedLLM := True, currentPrompt := ?prompt\<rparr>)
               (ceilQuarter (length ?prompt + length input)) (ceilQuarter (length reply))"
  let ?svc3 = "svc\<lparr>memory := ?m3\<rparr>"
  have rerun: "getNextState ?rx m' input = (None, m')"
    if defs: "mem_stateDefinitions m' = mem_stateDefinitions m2"
      and cur: "currentState m' = currentState m2" for m' :: "'f AgentMemory"
  proof (cases "next")
    case None
    with assms(3) have first: "fst (getNextState ?rx (recordedMemory rt svc input) input) = None"
      by simp
    then have "getNextState ?rx (recordedMemory rt svc input) input =
                 (None, recordedMemory rt svc input)"
      by (rule getNextState_None)
    with assms(3) have "m2 = recordedMemory rt svc input"
      by simp
    with defs cur first have "fst (getNextState ?rx m' input) = None"
      using getNextState_fst_cong [of m' m2 ?rx input] by simp
    then show ?thesis
      by (rule getNextState_None)
  next
    case (Some t)
    with assms(5) have "isTruthy next"
      by (simp add: isTruthy_def)
    with assms(4) have "mem_stateDefinitions m2 (currentState m2) = None"
      by (simp add: getCurrentStateDefinition_def)
    with defs cur have "mem_stateDefinitions m' (currentState m') = None"
      by simp
    then show ?thesis
      by (rule getNextState_undefined_state)
  qed
  have fb: "processUserInput rt svc input = llmFallback rt (svc\<lparr>memory := m2\<rparr>) input"
    using assms(1-4) by (rule processUserInput_fallback)
  have again: "getNextState ?rx (memory ?svc3) input = (None, memory ?svc3)"
    by (rule rerun) (simp_all add: updateTokenUsage_frame)
  have det: "determineStateFromLLMResponse ?rx ?svc3 reply input =
      ((case getCurrentStateDefinition m2 of
          None \<Rightarrow> None
        | Some st \<Rightarrow>
            (case transitions st of
               None \<Rightarrow> None
             | Some ts \<Rightarrow> scanTargetNames (business svc) reply ts)), ?svc3)"
    using determineState_rerun_null [OF again, of reply]
    by (simp add: getCurrentStateDefinition_def updateTokenUsage_frame
          cong: option.case_cong)
  let ?scan = "case getCurrentStateDefinition m2 of
                 None \<Rightarrow> None
               | Some st \<Rightarrow>
                   (case transitions st of
                      None \<Rightarrow> None
                    | Some ts \<Rightarrow> scanTargetNames (business svc) reply ts)"
  have "llmFallback rt (svc\<lparr>memory := m2\<rparr>) input =
          (\<lparr>response = reply, nextState = ?scan, disqualified = False\<rparr>, ?svc3)"
    using llmFallback_replies [of "svc\<lparr>memory := m2\<rparr>" rt input content] assms(6,7) det
    by (simp add: Let_def reply_def [symmetric])
  with fb have whole: "processUserInput rt svc input =
          (\<lparr>response = reply, nextState = ?scan, disqualified = False\<rparr>, ?svc3)"
    by simp
  have r: "response (fst (processUserInput rt svc input)) = reply"
    by (simp add: whole)
  have n: "nextState (fst (processUserInput rt svc input)) = ?scan"
    by (simp add: whole)
  have m: "memory (snd (processUserInput rt svc input)) = ?m3"
    by (simp add: whole)
  have c1: "\<forall>m' :: 'f AgentMemory. mem_stateDefinitions m' = mem_stateDefinitions m2 \<longrightarrow>
               currentState m' = currentState m2 \<longrightarrow>
               getNextState (regexTest rt) m' input = (None, m')"
    using rerun by blast
  have c2: "response (fst (processUserInput rt svc input)) =
            fixDuplication (orElse content ''I apologize, but I couldn't process that response.'')"
    using r by (simp only: reply_def)
  have c3: "nextState (fst (processUserInput rt svc input)) =
           (case getCurrentStateDefinition m2 of
              None \<Rightarrow> None
            | Some st \<Rightarrow>
                (case transitions st of
                   None \<Rightarrow> None
                 | Some ts \<Rightarrow>
                     scanTargetNames (business svc)
                       (response (fst (processUserInput rt svc input))) ts))"
    unfolding r by (rule n)
  have c4: "currentState (memory (snd (processUserInput rt svc input))) = currentState m2"
    by (simp add: m updateTokenUsage_frame)
  have c5: "transitionHistory (memory (snd (processUserInput rt svc input))) = transitionHistory m2"
    by (simp add: m updateTokenUsage_frame)
  from c1 c2 c3 c4 c5 show ?thesis
    by (intro conjI)
qed

theorem fallback_rerun_returns_null_witness:
  "\<not> isTruthy (findKnowledgeBaseResponse (regexTest replyRuntime) (memory demoService) ''maybe'') \<and>
   \<not> is_disqualified (isDisqualified (regexTest replyRuntime) (memory demoService) ''maybe'') \<and>
   getNextState (regexTest replyRuntime) (recordedMemory replyRuntime demoService ''maybe'') ''maybe'' =
     (None, recordedMemory replyRuntime demoService ''maybe'') \<and>
   openai demoService \<and>
   createChatCompletion replyRuntime (modelName demoService)
     (fallbackPrompt demoService (recordedMemory replyRuntime demoService ''maybe'')) ''maybe''
     = FirstChoice (Some ''Okay.'') \<and>
   getNextState (regexTest replyRuntime)
     ((recordedMemory replyRuntime demoService ''maybe'')\<lparr>usedLLM := True\<rparr>) ''maybe'' =
     (None, (recordedMemory replyRuntime demoService ''maybe'')\<lparr>usedLLM := True\<rparr>) \<and>
   response (fst (processUserInput replyRuntime demoService ''maybe'')) = ''Okay.'' \<and>
   nextState (fst (processUserInput replyRuntime demoService ''maybe'')) = None"
proof -
  let ?m1 = "recordedMemory replyRuntime demoService ''maybe''"
  have h1: "\<not> isTruthy (findKnowledgeBaseResponse (regexTest replyRuntime) (memory demoService) ''maybe'')"
    by code_simp
  have h2: "\<not> is_disqualified (isDisqualified (regexTest replyRuntime) (memory demoService) ''maybe'')"
    by code_simp
  have "fst (getNextState (regexTest replyRuntime) ?m1 ''maybe'') = None"
    by code_simp
  then have h3: "getNextState (regexTest replyRuntime) ?m1 ''maybe'' = (None, ?m1)"
    by (rule getNextState_None)
  have h4: "\<not> (isTruthy None \<and> getCurrentStateDefinition ?m1 \<noteq> None)"
    by (simp add: isTruthy_def)
  have h5: "None \<noteq> Some ([] :: string)"
    by simp
  have h6: "openai demoService"
    by code_simp
  have h7: "createChatCompletion replyRuntime (modelName demoService)
     (fallbackPrompt demoService ?m1) ''maybe'' = FirstChoice (Some ''Okay.'')"
    by (simp add: replyRuntime_def)
  note t = fallback_rerun_returns_null [OF h1 h2 h3 h4 h5 h6 h7]
  have r1: "getNextState (regexTest replyRuntime) (?m1\<lparr>usedLLM := True\<rparr>) ''maybe'' =
     (None, ?m1\<lparr>usedLLM := True\<rparr>)"
    using t [THEN conjunct1, rule_format, of "?m1\<lparr>usedLLM := True\<rparr>"] by simp
  have v: "fixDuplication (orElse (Some ''Okay.'') ''I apologize, but I couldn't process that response.'') = ''Okay.''"
    by code_simp
  have r2: "response (fst (processUserInput replyRuntime demoService ''maybe'')) = ''Okay.''"
    using t [THEN conjunct2, THEN conjunct1] v by simp
  have scan: "(case getCurrentStateDefinition ?m1 of
              None \<Rightarrow> None
            | Some st \<Rightarrow>
                (case transitions st of
                   None \<Rightarrow> None
                 | Some ts \<Rightarrow> scanTargetNames (business demoService) ''Okay.'' ts)) = None"
    by code_simp
  have r3: "nextState (fst (processUserInput replyRuntime demoService ''maybe'')) = None"
    using t [THEN conjunct2, THEN conjunct2, THEN conjunct1, unfolded r2] scan by simp
  from h1 h2 h3 h6 h7 r1 r2 r3 show ?thesis
    by (intro conjI)
qed

theorem empty_state_id_counterexample:
  "\<not> isTruthy (findKnowledgeBaseResponse (regexTest replyRuntime) (memory emptyIdService) ''hi'') \<and>
   \<not> is_disqualified (isDisqualified (regexTest replyRuntime) (memory emptyIdService) ''hi'') \<and>
   fst (getNextState (regexTest replyRuntime) (recordedMemory replyRuntime emptyIdService ''hi'') ''hi'')
     = Some [] \<and>
   nextState (fst (processUserInput replyRuntime emptyIdService ''hi'')) = Some ''end'' \<and>
   scanTargetNames (business emptyIdService) ''Okay.''
     [\<lparr>condition = ''any'', targetState = ''end''\<rparr>] = None"
proof -
  let ?g = "getNextState (regexTest replyRuntime) (recordedMemory replyRuntime emptyIdService ''hi'') ''hi''"
  let ?svc2 = "emptyIdService\<lparr>memory := snd ?g\<rparr>"
  let ?prompt = "fallbackPrompt ?svc2 (memory ?svc2)"
  let ?svc3 = "?svc2\<lparr>memory := updateTokenUsage (arithmetic replyRuntime)
                 ((memory ?svc2)\<lparr>usedLLM := True, currentPrompt := ?prompt\<rparr>)
                 (ceilQuarter (length ?prompt + length ''hi''))
                 (ceilQuarter (length ''Okay.''))\<rparr>"
  have h1: "\<not> isTruthy (findKnowledgeBaseResponse (regexTest replyRuntime) (memory emptyIdService) ''hi'')"
    by code_simp
  have h2: "\<not> is_disqualified (isDisqualified (regexTest replyRuntime) (memory emptyIdService) ''hi'')"
    by code_simp
  have h3: "fst ?g = Some []"
    by code_simp
  have pair: "?g = (fst ?g, snd ?g)"
    by simp
  have h4: "\<not> (isTruthy (fst ?g) \<and> getCurrentStateDefinition (snd ?g) \<noteq> None)"
    by (simp add: h3 isTruthy_def)
  have fb: "processUserInput replyRuntime emptyIdService ''hi'' = llmFallback replyRuntime ?svc2 ''hi''"
    using h1 h2 pair h4 by (rule processUserInput_fallback)
  have client: "openai ?svc2"
    by (simp add: emptyIdService_def new_KaniService_def)
  have replies: "createChatCompletion replyRuntime (modelName ?svc2) ?prompt ''hi'' = FirstChoice (Some ''Okay.'')"
    by (simp add: replyRuntime_def)
  have v: "fixDuplication (orElse (Some ''Okay.'') ''I apologize, but I couldn't process that response.'') = ''Okay.''"
    by code_simp
  have "nextState (fst (llmFallback replyRuntime ?svc2 ''hi'')) =
          fst (determineStateFromLLMResponse (regexTest replyRuntime) ?svc3 ''Okay.'' ''hi'')"
    using llmFallback_replies [OF client replies]
    by (simp add: Let_def v split_beta)
  also have "\<dots> = fst (determineStateFromLLMResponse (regexTest replyRuntime) ?svc2 ''Okay.'' ''hi'')"
    by (rule determineState_fst_cong) (simp_all add: updateTokenUsage_frame)
  also have "\<dots> = Some ''end''"
    by code_simp
  finally have r: "nextState (fst (processUserInput replyRuntime emptyIdService ''hi'')) = Some ''end''"
    using fb by simp
  have s: "scanTargetNames (business emptyIdService) ''Okay.''
     [\<lparr>condition = ''any'', targetState = ''end''\<rparr>] = None"
    by code_simp
  from h1 h2 h3 r s show ?thesis
    by (intro conjI)
qed


section \<open>Escalation on open-ended hints\<close>

lemma includes_str_iff: "includes_str s t = (\<exists>p q. s = p @ t @ q)"
proof (induction s)
  case Nil
  show ?case by auto
next
  case (Cons x xs)
  show ?case
  proof
    assume "includes_str (x # xs) t"
    then consider "prefix t (x # xs)" | "includes_str xs t"
      by auto
    then show "\<exists>p q. x # xs = p @ t @ q"
    proof cases
      case 1
      then obtain q where "x # xs = t @ q"
        by (auto simp: prefix_def)
      then have "x # xs = [] @ t @ q"
        by simp
      then show ?thesis by blast
    next
      case 2
      with Cons obtain p q where "xs = p @ t @ q"
        by auto
      then have "x # xs = (x # p) @ t @ q"
        by simp
      then show ?thesis by blast
    qed
  next
    assume "\<exists>p q. x # xs = p @ t @ q"
    then obtain p q where eq: "x # xs = p @ t @ q"
      by blast
    show "includes_str (x # xs) t"
    proof (cases p)
      case Nil
      with eq have "prefix t (x # xs)"
        by (simp add: prefix_def)
      then show ?thesis by simp
    next
      case (Cons y ys)
      with eq have "xs = ys @ t @ q"
        by simp
      with Cons.IH have "includes_str xs t"
        by blast
      then show ?thesis by simp
    qed
  qed
qed

lemma includes_str_toLowerCase:
  assumes "includes_str s t"
  shows "includes_str (toLowerCase s) (toLowerCase t)"
proof -
  from assms obtain p q where "s = p @ t @ q"
    by (auto simp: includes_str_iff)
  then have "toLowerCase s = toLowerCase p @ toLowerCase t @ toLowerCase q"
    by (simp add: toLowerCase_def)
  then show ?thesis
    by (auto simp: includes_str_iff)
qed

lemma openEnded_lowered:
  "toLowerCase ''reason'' = ''reason''" "toLowerCase ''objection'' = ''objection''"
  "toLowerCase ''explanation'' = ''explanation''" "toLowerCase ''description'' = ''description''"
  "toLowerCase ''feedback'' = ''feedback''"
  by code_simp+

text \<open>
  C6, as the code has it. When the expected-input hint of the current state contains one
  of \<open>reason\<close>, \<open>objection\<close>, \<open>explanation\<close>, \<open>description\<close>, \<open>feedback\<close> (as written or
  after lower-casing), the escalation decision is true whatever the transitions of the
  state are, except for a question about stored form data: an utterance that ends with
  \<open>?\<close>, is longer than 10 characters and mentions the derived name of a stored fact
  outside the business identity. That check comes first, and for such an utterance the
  decision is false.
\<close>

theorem open_ended_hint_escalates:
  assumes "mem_stateDefinitions m (currentState m) = Some st"
      and "expectedInputs st = Some hint"
      and "\<exists>w \<in> set [''reason'', ''objection'', ''explanation'', ''description'', ''feedback''].
             includes_str hint w \<or> includes_str (toLowerCase hint) w"
  shows "shouldUseLLM rx m utterance =
           (\<not> (endsWith utterance ''?'' \<and> length utterance > 10 \<and>
               asksAboutKnownData (contextualData m) utterance))"
proof -
  from assms(3) obtain w
    where w: "w \<in> set [''reason'', ''objection'', ''explanation'', ''description'', ''feedback'']"
      and "includes_str hint w \<or> includes_str (toLowerCase hint) w"
    by blast
  then have "includes_str (toLowerCase hint) (toLowerCase w) \<or> includes_str (toLowerCase hint) w"
    using includes_str_toLowerCase [of hint w] by blast
  moreover from w have "toLowerCase w = w"
    by (auto simp: openEnded_lowered)
  ultimately have low: "includes_str (toLowerCase hint) w"
    by simp
  from w low have open_ended:
    "includes_str (toLowerCase hint) ''reason'' \<or>
     includes_str (toLowerCase hint) ''objection'' \<or>
     includes_str (toLowerCase hint) ''explanation'' \<or>
     includes_str (toLowerCase hint) ''description'' \<or>
     includes_str (toLowerCase hint) ''feedback''"
    by auto
  show ?thesis
  proof (cases "endsWith utterance ''?'' \<and> length utterance > 10")
    case True
    then show ?thesis
      by (simp add: shouldUseLLM_def)
  next
    case False
    with assms(1,2) open_ended show ?thesis
      by (auto simp: shouldUseLLM_def lowerOrEmpty_def Let_def split: option.splits)
  qed
qed

theorem open_ended_hint_escalates_witness:
  "mem_stateDefinitions (memory (snd (processUserInput offlineRuntime objectionService ''Bob'')))
     (currentState (memory (snd (processUserInput offlineRuntime objectionService ''Bob'')))) =
     Some \<lparr>name = ''Ask reason'', question = ''Why are you not interested?'',
            expectedInputs = Some ''Reason or objection'', expectedKeywords = None,
            transitions = Some [\<lparr>condition = ''contains:price'', targetState = ''pricing''\<rparr>]\<rparr> \<and>
   includes_str ''Reason or objection'' ''objection'' \<and>
   matchesCondition noRegExp ''the price is too high'' ''contains:price'' \<and>
   shouldUseLLM noRegExp (memory (snd (processUserInput offlineRuntime objectionService ''Bob'')))
     ''the price is too high''"
proof -
  let ?m = "memory (snd (processUserInput offlineRuntime objectionService ''Bob''))"
  let ?st = "\<lparr>name = ''Ask reason'', question = ''Why are you not interested?'',
            expectedInputs = Some ''Reason or objection'', expectedKeywords = None,
            transitions = Some [\<lparr>condition = ''contains:price'', targetState = ''pricing''\<rparr>]\<rparr>"
  have h1: "mem_stateDefinitions ?m (currentState ?m) = Some ?st"
    by code_simp
  have h2: "expectedInputs ?st = Some ''Reason or objection''"
    by simp
  have inc: "includes_str ''Reason or objection'' ''objection''"
    by code_simp
  then have h3: "\<exists>w \<in> set [''reason'', ''objection'', ''explanation'', ''description'', ''feedback''].
      includes_str ''Reason or objection'' w \<or>
      includes_str (toLowerCase ''Reason or objection'') w"
    by simp
  have mt: "matchesCondition noRegExp ''the price is too high'' ''contains:price''"
    by code_simp
  have nq: "\<not> endsWith ''the price is too high'' ''?''"
    by code_simp
  have r: "shouldUseLLM noRegExp ?m ''the price is too high''"
    using open_ended_hint_escalates [OF h1 h2 h3, of noRegExp "''the price is too high''"] nq
    by simp
  from h1 inc mt r show ?thesis
    by (intro conjI)
qed

theorem question_about_known_data_counterexample:
  "mem_stateDefinitions (memory (snd (processUserInput offlineRuntime objectionService ''Bob'')))
     (currentState (memory (snd (processUserInput offlineRuntime objectionService ''Bob'')))) =
     Some \<lparr>name = ''Ask reason'', question = ''Why are you not interested?'',
            expectedInputs = Some ''Reason or objection'', expectedKeywords = None,
            transitions = Some [\<lparr>condition = ''contains:price'', targetState = ''pricing''\<rparr>]\<rparr> \<and>
   includes_str ''Reason or objection'' ''objection'' \<and>
   \<not> shouldUseLLM noRegExp (memory (snd (processUserInput offlineRuntime objectionService ''Bob'')))
       ''what is my name?''"
  by code_simp

section \<open>Knowledge base\<close>

lemma isWordChar_not_brace: "\<not> isWordChar (CHR ''}'')"
  by (simp add: isWordChar_def)

lemma replaceContextVariables_placeholder:
  assumes "v \<noteq> []" and "\<forall>c \<in> set v. isWordChar c"
  shows "replaceContextVariables ctx (''{'' @ v @ ''}'' @ post) =
           (case contextValue ctx v of Str x \<Rightarrow> x | Undefined \<Rightarrow> ''{'' @ v @ ''}'')
           @ replaceContextVariables ctx post"
proof -
  have t: "takeWhile isWordChar (v @ CHR ''}'' # post) = v"
    using assms(2) by (simp add: takeWhile_append2 isWordChar_not_brace)
  have d: "dropWhile isWordChar (v @ CHR ''}'' # post) = CHR ''}'' # post"
    using assms(2) by (simp add: dropWhile_append2 isWordChar_not_brace)
  show ?thesis
    using assms(1) by (simp add: t d startsWith_def Let_def split: jsval.splits)
qed

lemma replaceContextVariables_plain:
  assumes "\<forall>c \<in> set pre. c \<noteq> CHR ''{''"
  shows "replaceContextVariables ctx (pre @ rest) = pre @ replaceContextVariables ctx rest"
  using assms by (induction pre) (simp_all add: Let_def)

lemma searchKnowledgeBase_answer:
  "searchKnowledgeBase rx ctx q items = Some r \<Longrightarrow>
   \<exists>item \<in> set items. r = replaceContextVariables ctx (item_response item)"
  by (induction items) (auto split: if_splits option.splits)

lemma lowered_query: "trim (toLowerCase ''Where are you located?'') = ''where are you located?''"
  by code_simp

lemma located_match:
  "\<not> hasRegexChars ''where are you located'' \<and>
   list_ex (\<lambda>term. includes_str ''where are you located?'' term \<and> length term > 3)
     (splitWhiteSpace (toLowerCase ''where are you located''))"
  by code_simp

text \<open>
  What the resolver does in general. With the knowledge item of the example and the fact
  \<open>userCompany = Acme\<close>, the question is answered \<open>We are in Acme.\<close> in every memory. Every
  answer is the text of an item with its placeholders interpolated. A placeholder \<open>{v}\<close>
  is replaced by the contextual fact \<open>v\<close> when there is one; when there is none it is left
  as it is unless \<open>v\<close> names a member of \<^verbatim>\<open>Object.prototype\<close>, and then it is replaced by
  the string form of that member.
\<close>

lemma knowledge_answer_interpolation:
  "(mem_knowledgeBase m =
      [\<lparr>pattern = ''where are you located'', item_response = ''We are in {userCompany}.''\<rparr>] \<longrightarrow>
    map_of (contextualData m) ''userCompany'' = Some (Str ''Acme'') \<longrightarrow>
    findKnowledgeBaseResponse rx m ''Where are you located?'' = Some ''We are in Acme.'') \<and>
   (findKnowledgeBaseResponse rx m query = Some answer \<longrightarrow>
    (\<exists>item \<in> set (mem_knowledgeBase m).
       answer = replaceContextVariables (contextualData m) (item_response item))) \<and>
   ((\<forall>c \<in> set pre. c \<noteq> CHR ''{'') \<longrightarrow> v \<noteq> [] \<longrightarrow> (\<forall>c \<in> set v. isWordChar c) \<longrightarrow>
    replaceContextVariables ctx (pre @ ''{'' @ v @ ''}'' @ post) =
      pre @ (case map_of ctx v of
               Some (Str x) \<Rightarrow> x
             | Some Undefined \<Rightarrow> ''{'' @ v @ ''}''
             | None \<Rightarrow> (case inheritedMemberText v of
                          None \<Rightarrow> ''{'' @ v @ ''}''
                        | Some t \<Rightarrow> t))
          @ replaceContextVariables ctx post)"
proof -
  have example: "findKnowledgeBaseResponse rx m ''Where are you located?'' = Some ''We are in Acme.''"
    if kb: "mem_knowledgeBase m =
      [\<lparr>pattern = ''where are you located'', item_response = ''We are in {userCompany}.''\<rparr>]"
      and fact: "map_of (contextualData m) ''userCompany'' = Some (Str ''Acme'')"
  proof -
    have w: "\<forall>c \<in> set ''userCompany''. isWordChar c"
      by code_simp
    have "replaceContextVariables (contextualData m) (''We are in '' @ ''{'' @ ''userCompany'' @ ''}'' @ ''.'')
            = ''We are in '' @ ''Acme'' @ replaceContextVariables (contextualData m) ''.''"
      using replaceContextVariables_placeholder [OF _ w, of "contextualData m" "''.''"] fact
      by (simp add: replaceContextVariables_plain contextValue_def)
    then have "replaceContextVariables (contextualData m) ''We are in {userCompany}.'' = ''We are in Acme.''"
      by (simp add: Let_def)
    with kb located_match show ?thesis
      by (simp add: findKnowledgeBaseResponse_def lowered_query)
  qed
  have origin: "\<exists>item \<in> set (mem_knowledgeBase m).
       answer = replaceContextVariables (contextualData m) (item_response item)"
    if "findKnowledgeBaseResponse rx m query = Some answer"
    using that searchKnowledgeBase_answer [of rx "contextualData m" _ "mem_knowledgeBase m" answer]
    by (auto simp: findKnowledgeBaseResponse_def split: if_splits)
  have interpolation: "replaceContextVariables ctx (pre @ ''{'' @ v @ ''}'' @ post) =
      pre @ (case map_of ctx v of
               Some (Str x) \<Rightarrow> x
             | Some Undefined \<Rightarrow> ''{'' @ v @ ''}''
             | None \<Rightarrow> (case inheritedMemberText v of
                          None \<Rightarrow> ''{'' @ v @ ''}''
                        | Some t \<Rightarrow> t))
          @ replaceContextVariables ctx post"
    if "\<forall>c \<in> set pre. c \<noteq> CHR ''{''" and "v \<noteq> []" and "\<forall>c \<in> set v. isWordChar c"
  proof -
    have "replaceContextVariables ctx (pre @ ''{'' @ v @ ''}'' @ post) =
            pre @ replaceContextVariables ctx (''{'' @ v @ ''}'' @ post)"
      using that(1) by (rule replaceContextVariables_plain)
    also have "replaceContextVariables ctx (''{'' @ v @ ''}'' @ post) =
            (case contextValue ctx v of Str x \<Rightarrow> x | Undefined \<Rightarrow> ''{'' @ v @ ''}'')
            @ replaceContextVariables ctx post"
      using that(2,3) by (rule replaceContextVariables_placeholder)
    also have "(case contextValue ctx v of Str x \<Rightarrow> x | Undefined \<Rightarrow> ''{'' @ v @ ''}'') =
            (case map_of ctx v of
               Some (Str x) \<Rightarrow> x
             | Some Undefined \<Rightarrow> ''{'' @ v @ ''}''
             | None \<Rightarrow> (case inheritedMemberText v of
                          None \<Rightarrow> ''{'' @ v @ ''}''
                        | Some t \<Rightarrow> t))"
      by (simp add: contextValue_def split: option.splits jsval.splits)
    finally show ?thesis .
  qed
  from example origin interpolation show ?thesis
    by blast
qed

text \<open>
  C9. With the knowledge item \<open>where are you located\<close> / \<open>We are in {userCompany}.\<close> and
  the contextual fact \<open>userCompany = Acme\<close>, the question \<open>Where are you located?\<close> is
  answered \<open>We are in Acme.\<close> A placeholder without a contextual fact is not always left
  as it is: in the answer \<open>Ask {constructor} or {missing}.\<close>, with no fact of either
  name, \<open>{missing}\<close> stays and \<open>{constructor}\<close> is replaced by the string form of the
  member of \<^verbatim>\<open>Object.prototype\<close> of that name.
\<close>

theorem inherited_placeholder_is_replaced:
  "findKnowledgeBaseResponse noRegExp acmeMemory ''Where are you located?'' =
     Some ''We are in Acme.'' \<and>
   map_of (contextualData contactMemory) ''constructor'' = None \<and>
   map_of (contextualData contactMemory) ''missing'' = None \<and>
   findKnowledgeBaseResponse noRegExp contactMemory ''Who is my contact person?'' =
     Some ''Ask function Object() { [native code] } or {missing}.''"
  by code_simp

section \<open>What the repair does to runs of characters\<close>

lemma charRuns_head:
  "charRuns (c # cs) = (c, Suc (length (takeWhile (\<lambda>x. x = c) cs))) # charRuns (dropWhile (\<lambda>x. x = c) cs)"
proof (induction cs)
  case Nil
  show ?case by simp
next
  case (Cons x xs)
  show ?case
  proof (cases "x = c")
    case True
    with Cons show ?thesis
      by simp
  next
    case False
    then show ?thesis
      by (cases xs) (auto split: list.splits)
  qed
qed

declare charRuns.simps(2) [simp del]

lemma charRuns_Cons_other:
  assumes "cs = [] \<or> hd cs \<noteq> c"
  shows "charRuns (c # cs) = (c, 1) # charRuns cs"
proof -
  from assms have "takeWhile (\<lambda>x. x = c) cs = []" and "dropWhile (\<lambda>x. x = c) cs = cs"
    by (cases cs; simp)+
  then show ?thesis
    by (simp only: charRuns_head [of c cs] list.size One_nat_def)
qed

lemma replace_head:
  "problematicDuplication_replace cs = [] \<longleftrightarrow> cs = []"
  "cs \<noteq> [] \<Longrightarrow> hd (problematicDuplication_replace cs) = hd cs"
  by (cases cs; simp)+

lemma dropWhile_eq_head: "dropWhile (\<lambda>x. x = c) cs = [] \<or> hd (dropWhile (\<lambda>x. x = c) cs) \<noteq> c"
  using hd_dropWhile [of "\<lambda>x. x = c" cs] by auto

lemma charRuns_replace:
  "charRuns (problematicDuplication_replace s) = map collapsedRun (charRuns s)"
proof (induction s rule: problematicDuplication_replace.induct)
  case 1
  show ?case by simp
next
  case (2 c cs)
  let ?k = "length (takeWhile (\<lambda>x. x = c) cs)"
  let ?rest = "dropWhile (\<lambda>x. x = c) cs"
  show ?case
  proof (cases "\<not> isLineTerminator c \<and> 2 \<le> ?k")
    case True
    then have ih: "charRuns (problematicDuplication_replace ?rest) = map collapsedRun (charRuns ?rest)"
      using 2 by simp
    have sep: "problematicDuplication_replace ?rest = [] \<or>
               hd (problematicDuplication_replace ?rest) \<noteq> c"
    proof (cases "?rest = []")
      case True
      then show ?thesis by (simp add: replace_head(1))
    next
      case False
      with dropWhile_eq_head [of c cs] have "hd ?rest \<noteq> c"
        by blast
      with replace_head(2) [OF False] show ?thesis
        by simp
    qed
    have one: "charRuns (c # problematicDuplication_replace ?rest) =
            (c, 1) # charRuns (problematicDuplication_replace ?rest)"
      by (rule charRuns_Cons_other [OF sep])
    have "charRuns (c # c # problematicDuplication_replace ?rest) =
            (c, 2) # charRuns (problematicDuplication_replace ?rest)"
      by (subst charRuns.simps(2)) (simp add: one)
    with True ih show ?thesis
      by (simp add: charRuns_head [of c cs] collapsedRun_def)
  next
    case False
    then have ih: "charRuns (problematicDuplication_replace cs) = map collapsedRun (charRuns cs)"
      using 2 by auto
    from False have rep: "problematicDuplication_replace (c # cs) = c # problematicDuplication_replace cs"
      by auto
    show ?thesis
    proof (cases cs)
      case Nil
      then show ?thesis
        by (simp add: collapsedRun_def charRuns_head [of c "[]"])
    next
      case (Cons x xs)
      show ?thesis
      proof (cases "x = c")
        case same: True
        define k where "k = length (takeWhile (\<lambda>y. y = c) xs)"
        define rs where "rs = charRuns (dropWhile (\<lambda>y. y = c) xs)"
        have runs_cs: "charRuns cs = (c, Suc k) # rs"
          using Cons same charRuns_head [of c xs] by (simp add: k_def rs_def)
        have len: "?k = Suc k"
          using Cons same by (simp add: k_def)
        have rhs: "charRuns (c # cs) = (c, Suc (Suc k)) # rs"
          by (simp add: charRuns.simps(2) runs_cs)
        have lhs: "charRuns (c # problematicDuplication_replace cs) =
                     (c, Suc (snd (collapsedRun (c, Suc k)))) # map collapsedRun rs"
          by (simp add: charRuns.simps(2) ih runs_cs collapsedRun_def)
        from False len have "isLineTerminator c \<or> k = 0"
          by auto
        then show ?thesis
          using rep lhs rhs by (auto simp: collapsedRun_def)
      next
        case other: False
        have "charRuns (c # cs) = (c, 1) # charRuns cs"
          using Cons other by (intro charRuns_Cons_other) simp
        moreover have "charRuns (c # problematicDuplication_replace cs) =
                         (c, 1) # charRuns (problematicDuplication_replace cs)"
          using Cons other by (intro charRuns_Cons_other) (simp add: replace_head)
        ultimately show ?thesis
          using rep ih by (simp add: collapsedRun_def)
      qed
    qed
  qed
qed

lemma replace_without_match:
  "\<not> problematicDuplication_test s \<Longrightarrow> problematicDuplication_replace s = s"
  by (induction s) auto

lemma fixDuplication_replace: "fixDuplication s = problematicDuplication_replace s"
  by (simp add: fixDuplication_def replace_without_match)

text \<open>
  C7. The repair collapses every run of three or more copies of a character to two copies
  and leaves shorter runs alone, except for runs of a line terminator, which it leaves at
  any length: the dot of the pattern does not match a line terminator. A reply with three
  consecutive newlines comes back unchanged.
\<close>

theorem line_terminator_runs_are_kept:
  "fixDuplication ''a\<newline>\<newline>\<newline>b'' = ''a\<newline>\<newline>\<newline>b'' \<and>
   fixDuplication ''Hellllo   wooorld!!!! aa'' = ''Hello  woorld!! aa'' \<and>
   charRuns (fixDuplication s) = map collapsedRun (charRuns s)"
proof -
  have "fixDuplication ''a\<newline>\<newline>\<newline>b'' = ''a\<newline>\<newline>\<newline>b''"
    by code_simp
  moreover have "fixDuplication ''Hellllo   wooorld!!!! aa'' = ''Hello  woorld!! aa''"
    by code_simp
  ultimately show ?thesis
    by (simp only: fixDuplication_replace charRuns_replace)
qed


end
